theory Spec2Isabelle
  imports Complex_Main
begin

text \<open>
  A model of two modules of \<open>pact-js-core\<close>: the argument mapper of the verifier
  (\<open>src/verifier/argumentMapper/arguments.ts\<close>), which turns the verifier options into
  calls of the native engine, and the factory of the mock server (\<open>server.js\<close>). A
  \<open>validateAndExecute\<close> function becomes a function to the list of native calls it makes
  and its result. What belongs to Node or to the machine (the environment, the URL parsers,
  the file system) is a parameter.
\<close>

section \<open>JavaScript values and operators used by the sources\<close>

text \<open>
  A value of type \<open>string | undefined\<close> is a \<open>string option\<close>; \<open>undefined\<close> is
  \<open>None\<close>. Such a value is truthy exactly when it is defined and not the empty string.
\<close>

definition truthy :: "string option \<Rightarrow> bool" where
  "truthy v = (case v of None \<Rightarrow> False | Some s \<Rightarrow> s \<noteq> [])"

text \<open>
  The string a truthy value holds; on \<open>undefined\<close> it is the empty string. The sources
  read a value this way only after they have tested it.
\<close>

definition str_of :: "string option \<Rightarrow> string" where
  "str_of v = (case v of None \<Rightarrow> [] | Some s \<Rightarrow> s)"

text \<open>\<open>a || b\<close> for two values of type \<open>string | undefined\<close>.\<close>

definition or_undefined :: "string option \<Rightarrow> string option \<Rightarrow> string option" where
  "or_undefined a b = (if truthy a then a else b)"

text \<open>\<open>a || 'lit'\<close>, the last link of a fallback chain.\<close>

definition or_str :: "string option \<Rightarrow> string \<Rightarrow> string" where
  "or_str a lit = (case a of None \<Rightarrow> lit | Some s \<Rightarrow> if s \<noteq> [] then s else lit)"

text \<open>\<open>a || false\<close> for a value of type \<open>boolean | undefined\<close>.\<close>

definition or_false :: "bool option \<Rightarrow> bool" where
  "or_false a = (case a of None \<Rightarrow> False | Some b \<Rightarrow> b)"

text \<open>\<open>a || []\<close> for a value of type \<open>string[] | undefined\<close>: every array is truthy.\<close>

definition or_empty :: "'a list option \<Rightarrow> 'a list" where
  "or_empty a = (case a of None \<Rightarrow> [] | Some xs \<Rightarrow> xs)"

text \<open>
  \<open>String.prototype.split\<close> with a one-character separator: the string is cut at every
  occurrence of the separator, so a string with \<open>n\<close> separators gives \<open>n + 1\<close> parts
  and the empty string gives one empty part.
\<close>

fun split_str :: "char \<Rightarrow> string \<Rightarrow> string list" where
  "split_str sep [] = [[]]"
| "split_str sep (c # cs) =
     (if c = sep then [] # split_str sep cs
      else (c # hd (split_str sep cs)) # tl (split_str sep cs))"

text \<open>
  \<open>parseInt(s, 10)\<close>: leading white space is skipped, one sign is read, then the longest
  prefix of decimal digits; with no digit the result is \<open>NaN\<close>, here \<open>None\<close>.
\<close>

definition is_digit :: "char \<Rightarrow> bool" where
  "is_digit c = (c \<in> set ''0123456789'')"

definition is_white :: "char \<Rightarrow> bool" where
  "is_white c = (c \<in> {CHR '' '', CHR 0x09, CHR 0x0A, CHR 0x0B, CHR 0x0C, CHR 0x0D})"

definition digit_val :: "char \<Rightarrow> int" where
  "digit_val c = int (of_char c) - 48"

definition digits_val :: "string \<Rightarrow> int" where
  "digits_val ds = foldl (\<lambda>n c. 10 * n + digit_val c) 0 ds"

definition parseInt10 :: "string \<Rightarrow> int option" where
  "parseInt10 s =
     (let t = dropWhile is_white s;
          neg = (t \<noteq> [] \<and> hd t = CHR ''-'');
          u = (if t \<noteq> [] \<and> (hd t = CHR ''-'' \<or> hd t = CHR ''+'') then tl t else t);
          ds = takeWhile is_digit u
      in if ds = [] then None
         else Some (if neg then - digits_val ds else digits_val ds))"

text \<open>The regular expression \<open>/https?:/\<close>, unanchored, as \<open>RegExp.prototype.test\<close> runs it.\<close>

primrec starts_with :: "string \<Rightarrow> string \<Rightarrow> bool" where
  "starts_with [] s = True"
| "starts_with (p # ps) s = (case s of [] \<Rightarrow> False | c # cs \<Rightarrow> c = p \<and> starts_with ps cs)"

fun https_regex_test :: "string \<Rightarrow> bool" where
  "https_regex_test [] = False"
| "https_regex_test (c # cs) =
     (starts_with ''http:'' (c # cs) \<or> starts_with ''https:'' (c # cs) \<or> https_regex_test cs)"

section \<open>The order of execution\<close>

text \<open>
  The names of the native verifier functions that \<open>arguments.ts\<close> mentions: the nine
  required ones, the two merged source functions and the three ignored ones.
\<close>

datatype ffi_fn_name =
    pactffiVerifierSetProviderInfo
  | pactffiVerifierSetFilterInfo
  | pactffiVerifierSetProviderState
  | pactffiVerifierSetVerificationOptions
  | pactffiVerifierSetPublishOptions
  | pactffiVerifierSetConsumerFilters
  | pactffiVerifierAddCustomHeader
  | pactffiVerifierAddDirectorySource
  | pactffiVerifierBrokerSourceWithSelectors
  | pactffiVerifierAddFileSource
  | pactffiVerifierUrlSource
  | pactffiVerifierNewForApplication
  | pactffiVerifierExecute
  | pactffiVerifierShutdown

text \<open>The object literal \<open>orderOfExecution\<close>, property by property.\<close>

definition orderOfExecution :: "(ffi_fn_name \<times> nat) list" where
  "orderOfExecution =
     [(pactffiVerifierSetProviderInfo, 1),
      (pactffiVerifierSetFilterInfo, 2),
      (pactffiVerifierSetProviderState, 3),
      (pactffiVerifierSetVerificationOptions, 4),
      (pactffiVerifierSetPublishOptions, 5),
      (pactffiVerifierSetConsumerFilters, 6),
      (pactffiVerifierAddCustomHeader, 7),
      (pactffiVerifierAddDirectorySource, 8),
      (pactffiVerifierBrokerSourceWithSelectors, 9)]"

text \<open>
  The keys of the type \<open>MergedFfiSourceFunctions\<close>. Together with the ignored ones they
  are taken out of the keys that \<open>OrderedExecution\<close> asks a number for.
\<close>

definition MergedFfiSourceFunctions :: "ffi_fn_name list" where
  "MergedFfiSourceFunctions = [pactffiVerifierAddFileSource, pactffiVerifierUrlSource]"

section \<open>The argument mapper: \<open>arguments.ts\<close>\<close>

subsection \<open>Data\<close>

text \<open>
  \<open>FnValidationStatus\<close> and the result object \<open>{ status, messages? }\<close> that every
  \<open>validateAndExecute\<close> returns. A result built without the \<open>messages\<close> property has
  \<open>messages = None\<close>. The two types are declared in \<open>./types\<close>; the members here are
  the ones \<open>arguments.ts\<close> uses.
\<close>

datatype FnValidationStatus = SUCCESS | FAIL | IGNORE

record FnValidationResult =
  status :: FnValidationStatus
  messages :: "string list option"

text \<open>
  \<open>customProviderHeaders\<close> is either an array of strings or an object, whose entries
  \<open>Object.entries\<close> lists in insertion order.
\<close>

datatype CustomHeaders = HeaderArray "string list" | HeaderObject "(string \<times> string) list"

text \<open>
  The fields of \<open>InternalPactVerifierOptions\<close> that the mapper reads; the type itself is
  declared in \<open>../types\<close>, and each field has the type its uses in \<open>arguments.ts\<close>
  ask for. An optional field is an \<open>option\<close>; consumer version selectors are objects of
  a type \<open>'sel\<close> that only \<open>JSON.stringify\<close> looks into. A string is a list of
  \<open>char\<close>.
\<close>

record 'sel InternalPactVerifierOptions =
  providerBaseUrl :: string
  provider :: "string option"
  pactUrls :: "string list option"
  pactBrokerUrl :: "string option"
  pactBrokerUsername :: "string option"
  pactBrokerPassword :: "string option"
  pactBrokerToken :: "string option"
  customProviderHeaders :: "CustomHeaders option"
  consumerFilters :: "string list option"
  providerStatesSetupUrl :: "string option"
  publishVerificationResult :: "bool option"
  providerVersion :: "string option"
  buildUrl :: "string option"
  providerVersionTags :: "string list option"
  providerVersionBranch :: "string option"
  providerBranch :: "string option"
  enablePending :: "bool option"
  includeWipPactsSince :: "string option"
  consumerVersionSelectors :: "'sel list option"
  consumerVersionTags :: "string list option"
  disableSslVerification :: "bool option"
  timeout :: "int option"

text \<open>The properties of a WHATWG \<open>URL\<close> object that the mapper reads.\<close>

record URL =
  protocol :: string
  hostname :: string
  port :: string
  pathname :: string

text \<open>The three tests the mapper runs on an \<open>fs.Stats\<close> object.\<close>

record Stats =
  isDirectory :: bool
  isFile :: bool
  isSymbolicLink :: bool

text \<open>
  The exceptions of the two modules: the \<open>TypeError\<close> for an invalid URL, which
  \<open>new URL\<close> and \<open>url.parse\<close> throw, the \<open>URIError\<close> of \<open>url.parse\<close>, an \<open>Error\<close>
  with its message, a failed \<open>check-types\<close> assertion with the name of the assertion, a
  failure of \<open>mkdirp.sync\<close>, and a failure of \<open>process.kill\<close> or \<open>cp.execSync\<close>.
\<close>

datatype thrown =
    TypeError_Invalid_URL
  | URIError
  | Error string
  | AssertionFailed string
  | MkdirpFailed
  | KillFailed

text \<open>
  What the mapper asks of Node and of the machine it runs on. These functions are not part
  of the repository, so they are parameters of the model: \<open>process.env\<close>,
  \<open>url.parse(s).protocol\<close> (\<open>Inl\<close> with the exception when \<open>url.parse\<close> throws, else
  \<open>Inr\<close> with the protocol, \<open>None\<close> for \<open>null\<close>), the constructor \<open>new URL(s)\<close>
  (\<open>None\<close> when it throws), \<open>fs.lstatSync\<close> (\<open>None\<close> when it throws) and
  \<open>JSON.stringify\<close>, which returns on the plain objects that selectors are.
\<close>

record 'sel Node =
  process_env :: "string \<Rightarrow> string option"
  url_parse_protocol :: "string \<Rightarrow> thrown + string option"
  new_URL :: "string \<Rightarrow> URL option"
  lstatSync :: "string \<Rightarrow> Stats option"
  JSON_stringify :: "'sel \<Rightarrow> string"

text \<open>
  One call of a native function, with its arguments in the order of the source. The
  handle \<open>'h\<close> is opaque. The port of \<open>SetProviderInfo\<close> is the number \<open>parseInt\<close>
  returns, \<open>None\<close> for \<open>NaN\<close>. The native functions are taken to return: the engine
  behind them is not part of the sources.
\<close>

datatype 'h ffi_call =
    AddCustomHeader 'h string string
  | UrlSource 'h string string string string
  | AddDirectorySource 'h string
  | AddFileSource 'h string
  | BrokerSourceWithSelectors 'h string string string string bool string
      "string list" string "string list" "string list"
  | SetConsumerFilters 'h "string list"
  | SetFilterInfo 'h string string bool
  | SetProviderInfo 'h string string string "int option" string
  | SetProviderState 'h string bool bool
  | SetPublishOptions 'h string string "string list" string
  | SetVerificationOptions 'h bool int

text \<open>
  A run of \<open>validateAndExecute\<close>: the native calls it made, in order, and either the
  exception that left it or the result it returned.
\<close>

type_synonym 'h run = "'h ffi_call list \<times> (thrown + FnValidationResult)"

definition returns :: "FnValidationStatus \<Rightarrow> thrown + FnValidationResult" where
  "returns st = Inr \<lparr>status = st, messages = None\<rparr>"

definition DEFAULT_TIMEOUT :: int where
  "DEFAULT_TIMEOUT = 30000"

definition objArrayToStringArray :: "'sel Node \<Rightarrow> 'sel list \<Rightarrow> string list" where
  "objArrayToStringArray node obj = map (JSON_stringify node) obj"

subsection \<open>\<open>pactffiVerifierAddCustomHeader\<close>\<close>

definition invalid_header_message :: "string \<Rightarrow> string" where
  "invalid_header_message item =
     item @ '' is not a valid custom header. Must be in the format ''
       @ [CHR 0x27] @ ''Header-Name: Value'' @ [CHR 0x27]"

text \<open>
  The body of the \<open>forEach\<close> over the array form, on the pair of the calls made so far
  and the local array \<open>messages\<close>.
\<close>

definition customHeader_item ::
  "'h \<Rightarrow> string \<Rightarrow> 'h ffi_call list \<times> string list \<Rightarrow> 'h ffi_call list \<times> string list" where
  "customHeader_item handle item st =
     (let parts = split_str CHR '':'' item
      in if length parts \<noteq> 2
         then (fst st, snd st @ [invalid_header_message item])
         else (fst st @ [AddCustomHeader handle (parts ! 0) (parts ! 1)], snd st))"

text \<open>
  The local \<open>messages\<close> decides between \<open>FAIL\<close> and \<open>SUCCESS\<close>; the object returned on
  failure is \<open>{ status: FnValidationStatus.FAIL }\<close>, without the array.
\<close>

definition AddCustomHeader_validateAndExecute ::
  "'sel Node \<Rightarrow> 'h \<Rightarrow> 'sel InternalPactVerifierOptions \<Rightarrow> 'h run" where
  "AddCustomHeader_validateAndExecute node handle options =
     (case customProviderHeaders options of
        None \<Rightarrow> ([], returns IGNORE)
      | Some (HeaderArray items) \<Rightarrow>
          (let st = fold (customHeader_item handle) items ([], [])
           in (fst st, if length (snd st) > 0 then returns FAIL else returns SUCCESS))
      | Some (HeaderObject entries) \<Rightarrow>
          (map (\<lambda>(key, val). AddCustomHeader handle key val) entries, returns SUCCESS))"

subsection \<open>\<open>pactffiVerifierAddDirectorySource\<close>\<close>

definition invalid_url_message :: "string \<Rightarrow> string" where
  "invalid_url_message file = file @ '' is not a valid URL''"

definition missing_file_message :: "string \<Rightarrow> string" where
  "missing_file_message file =
     [CHR 0x27] @ file @ [CHR 0x27] @ '' does not exist, or is not a file or directory''"

text \<open>
  The body of the \<open>forEach\<close> over \<open>pactUrls\<close>, on the pair of the calls made so far and
  the local array \<open>messages\<close>. The call of \<open>url.parse\<close> stands outside the two \<open>try\<close>
  blocks: when it throws, the exception leaves the body. Otherwise the test on the
  protocol chooses between the two \<open>try\<close> blocks; the second one is the only place that
  reads the file system.
\<close>

definition pactUrl_item ::
  "'sel Node \<Rightarrow> 'h \<Rightarrow> 'sel InternalPactVerifierOptions \<Rightarrow> string \<Rightarrow>
     'h ffi_call list \<times> string list \<Rightarrow> thrown + 'h ffi_call list \<times> string list" where
  "pactUrl_item node handle options file st =
     (case url_parse_protocol node file of
        Inl e \<Rightarrow> Inl e
      | Inr p \<Rightarrow>
     if https_regex_test (or_str p [])
      then (case new_URL node file of
              None \<Rightarrow> Inr (fst st, snd st @ [invalid_url_message file])
            | Some u \<Rightarrow>
                if hostname u \<noteq> []
                then Inr (fst st @
                       [UrlSource handle file
                          (or_str (or_undefined (pactBrokerUsername options)
                             (process_env node ''PACT_BROKER_USERNAME'')) [])
                          (or_str (or_undefined (pactBrokerPassword options)
                             (process_env node ''PACT_BROKER_PASSWORD'')) [])
                          (or_str (or_undefined (pactBrokerToken options)
                             (process_env node ''PACT_BROKER_TOKEN'')) [])],
                      snd st)
                else Inr st)
      else (case lstatSync node file of
              None \<Rightarrow> Inr (fst st, snd st @ [missing_file_message file])
            | Some f \<Rightarrow>
                if isDirectory f then Inr (fst st @ [AddDirectorySource handle file], snd st)
                else if isFile f \<or> isSymbolicLink f
                then Inr (fst st @ [AddFileSource handle file], snd st)
                else Inr st))"

text \<open>
  \<open>Array.prototype.forEach\<close> with that body: an exception ends the loop, the later
  locations are not visited, and the calls made before it stay made.
\<close>

fun pactUrls_forEach ::
  "'sel Node \<Rightarrow> 'h \<Rightarrow> 'sel InternalPactVerifierOptions \<Rightarrow> string list \<Rightarrow>
     'h ffi_call list \<times> string list \<Rightarrow> ('h ffi_call list \<times> string list) \<times> thrown option" where
  "pactUrls_forEach node handle options [] st = (st, None)"
| "pactUrls_forEach node handle options (file # files) st =
     (case pactUrl_item node handle options file st of
        Inl e \<Rightarrow> (st, Some e)
      | Inr st' \<Rightarrow> pactUrls_forEach node handle options files st')"

definition AddDirectorySource_validateAndExecute ::
  "'sel Node \<Rightarrow> 'h \<Rightarrow> 'sel InternalPactVerifierOptions \<Rightarrow> 'h run" where
  "AddDirectorySource_validateAndExecute node handle options =
     (case pactUrls options of
        None \<Rightarrow> ([], returns IGNORE)
      | Some files \<Rightarrow>
          (case pactUrls_forEach node handle options files ([], []) of
             (st, Some e) \<Rightarrow> (fst st, Inl e)
           | (st, None) \<Rightarrow>
               (fst st,
                if length (snd st) > 0 then Inr \<lparr>status = FAIL, messages = Some (snd st)\<rparr>
                else returns SUCCESS)))"

subsection \<open>\<open>pactffiVerifierBrokerSourceWithSelectors\<close>\<close>

definition BrokerSourceWithSelectors_validateAndExecute ::
  "'sel Node \<Rightarrow> 'h \<Rightarrow> 'sel InternalPactVerifierOptions \<Rightarrow> 'h run" where
  "BrokerSourceWithSelectors_validateAndExecute node handle opts =
     (let brokerUrl = or_undefined (pactBrokerUrl opts) (process_env node ''PACT_BROKER_BASE_URL'')
      in case brokerUrl of
           None \<Rightarrow> ([], returns IGNORE)
         | Some b \<Rightarrow>
             if b \<noteq> [] \<and> truthy (provider opts)
             then ([BrokerSourceWithSelectors handle b
                      (or_str (or_undefined (pactBrokerUsername opts)
                         (process_env node ''PACT_BROKER_USERNAME'')) [])
                      (or_str (or_undefined (pactBrokerPassword opts)
                         (process_env node ''PACT_BROKER_PASSWORD'')) [])
                      (or_str (or_undefined (pactBrokerToken opts)
                         (process_env node ''PACT_BROKER_TOKEN'')) [])
                      (or_false (enablePending opts))
                      (or_str (includeWipPactsSince opts) [])
                      (or_empty (providerVersionTags opts))
                      (or_str (or_undefined (providerVersionBranch opts) (providerBranch opts)) [])
                      (case consumerVersionSelectors opts of
                         None \<Rightarrow> []
                       | Some sels \<Rightarrow> objArrayToStringArray node sels)
                      (or_empty (consumerVersionTags opts))],
                   returns SUCCESS)
             else ([], returns IGNORE))"

subsection \<open>\<open>pactffiVerifierSetConsumerFilters\<close>\<close>

definition SetConsumerFilters_validateAndExecute ::
  "'sel Node \<Rightarrow> 'h \<Rightarrow> 'sel InternalPactVerifierOptions \<Rightarrow> 'h run" where
  "SetConsumerFilters_validateAndExecute node handle options =
     (case consumerFilters options of
        None \<Rightarrow> ([], returns IGNORE)
      | Some fs \<Rightarrow>
          if length fs > 0 then ([SetConsumerFilters handle fs], returns SUCCESS)
          else ([], returns IGNORE))"

subsection \<open>\<open>pactffiVerifierSetFilterInfo\<close>\<close>

definition SetFilterInfo_validateAndExecute ::
  "'sel Node \<Rightarrow> 'h \<Rightarrow> 'sel InternalPactVerifierOptions \<Rightarrow> 'h run" where
  "SetFilterInfo_validateAndExecute node handle options =
     (if truthy (process_env node ''PACT_DESCRIPTION'')
         \<or> truthy (process_env node ''PACT_PROVIDER_STATE'')
         \<or> truthy (process_env node ''PACT_PROVIDER_NO_STATE'')
      then (let filterDescription = or_str (process_env node ''PACT_DESCRIPTION'') [];
                filterState = or_str (process_env node ''PACT_PROVIDER_STATE'') [];
                filterNoState = truthy (process_env node ''PACT_PROVIDER_NO_STATE'')
            in ([SetFilterInfo handle filterDescription filterState filterNoState],
                returns SUCCESS))
      else ([], returns IGNORE))"

subsection \<open>\<open>pactffiVerifierSetProviderInfo\<close>\<close>

text \<open>
  \<open>new URL\<close> stands outside any \<open>try\<close>: when it throws, the exception leaves
  \<open>validateAndExecute\<close> before a native call is made.
\<close>

definition SetProviderInfo_validateAndExecute ::
  "'sel Node \<Rightarrow> 'h \<Rightarrow> 'sel InternalPactVerifierOptions \<Rightarrow> 'h run" where
  "SetProviderInfo_validateAndExecute node handle options =
     (case new_URL node (providerBaseUrl options) of
        None \<Rightarrow> ([], Inl TypeError_Invalid_URL)
      | Some uri \<Rightarrow>
          ([SetProviderInfo handle
              (or_str (provider options) [])
              (hd (split_str CHR '':'' (protocol uri)))
              (hostname uri)
              (parseInt10 (port uri))
              (pathname uri)],
           returns SUCCESS))"

subsection \<open>\<open>pactffiVerifierSetProviderState\<close>\<close>

definition SetProviderState_validateAndExecute ::
  "'sel Node \<Rightarrow> 'h \<Rightarrow> 'sel InternalPactVerifierOptions \<Rightarrow> 'h run" where
  "SetProviderState_validateAndExecute node handle options =
     (case providerStatesSetupUrl options of
        None \<Rightarrow> ([], returns IGNORE)
      | Some u \<Rightarrow>
          if u \<noteq> [] then ([SetProviderState handle u True True], returns SUCCESS)
          else ([], returns IGNORE))"

subsection \<open>\<open>pactffiVerifierSetPublishOptions\<close>\<close>

definition SetPublishOptions_validateAndExecute ::
  "'sel Node \<Rightarrow> 'h \<Rightarrow> 'sel InternalPactVerifierOptions \<Rightarrow> 'h run" where
  "SetPublishOptions_validateAndExecute node handle options =
     (case providerVersion options of
        None \<Rightarrow> ([], returns IGNORE)
      | Some v \<Rightarrow>
          if (or_false (publishVerificationResult options)
                \<or> truthy (process_env node ''PACT_BROKER_PUBLISH_VERIFICATION_RESULTS''))
             \<and> v \<noteq> []
          then ([SetPublishOptions handle v
                   (or_str (buildUrl options) [])
                   (or_empty (providerVersionTags options))
                   (or_str (or_undefined (providerVersionBranch options) (providerBranch options)) [])],
                returns SUCCESS)
          else ([], returns IGNORE))"

subsection \<open>\<open>pactffiVerifierSetVerificationOptions\<close>\<close>

definition SetVerificationOptions_validateAndExecute ::
  "'sel Node \<Rightarrow> 'h \<Rightarrow> 'sel InternalPactVerifierOptions \<Rightarrow> 'h run" where
  "SetVerificationOptions_validateAndExecute node handle opts =
     (if or_false (disableSslVerification opts)
         \<or> (case timeout opts of None \<Rightarrow> False | Some t \<Rightarrow> t \<noteq> 0)
      then ([SetVerificationOptions handle
               (or_false (disableSslVerification opts))
               (case timeout opts of
                  None \<Rightarrow> DEFAULT_TIMEOUT
                | Some t \<Rightarrow> if t \<noteq> 0 then t else DEFAULT_TIMEOUT)],
            returns SUCCESS)
      else ([], returns IGNORE))"

subsection \<open>The table \<open>ffiFnMapping\<close>\<close>

text \<open>The table has one entry for each of the nine required functions and no other.\<close>

fun ffiFnMapping ::
  "ffi_fn_name \<Rightarrow> ('sel Node \<Rightarrow> 'h \<Rightarrow> 'sel InternalPactVerifierOptions \<Rightarrow> 'h run) option" where
  "ffiFnMapping pactffiVerifierAddCustomHeader = Some AddCustomHeader_validateAndExecute"
| "ffiFnMapping pactffiVerifierAddDirectorySource = Some AddDirectorySource_validateAndExecute"
| "ffiFnMapping pactffiVerifierBrokerSourceWithSelectors =
     Some BrokerSourceWithSelectors_validateAndExecute"
| "ffiFnMapping pactffiVerifierSetConsumerFilters = Some SetConsumerFilters_validateAndExecute"
| "ffiFnMapping pactffiVerifierSetFilterInfo = Some SetFilterInfo_validateAndExecute"
| "ffiFnMapping pactffiVerifierSetProviderInfo = Some SetProviderInfo_validateAndExecute"
| "ffiFnMapping pactffiVerifierSetProviderState = Some SetProviderState_validateAndExecute"
| "ffiFnMapping pactffiVerifierSetPublishOptions = Some SetPublishOptions_validateAndExecute"
| "ffiFnMapping pactffiVerifierSetVerificationOptions =
     Some SetVerificationOptions_validateAndExecute"
| "ffiFnMapping _ = None"

text \<open>An options object with only the required field \<open>providerBaseUrl\<close> set.\<close>

definition no_options :: "string \<Rightarrow> 'sel InternalPactVerifierOptions" where
  "no_options base =
     \<lparr>providerBaseUrl = base, provider = None, pactUrls = None, pactBrokerUrl = None,
      pactBrokerUsername = None, pactBrokerPassword = None, pactBrokerToken = None,
      customProviderHeaders = None, consumerFilters = None, providerStatesSetupUrl = None,
      publishVerificationResult = None, providerVersion = None, buildUrl = None,
      providerVersionTags = None, providerVersionBranch = None, providerBranch = None,
      enablePending = None, includeWipPactsSince = None, consumerVersionSelectors = None,
      consumerVersionTags = None, disableSslVerification = None, timeout = None\<rparr>"

section \<open>The mock server factory: \<open>server.js\<close>\<close>

text \<open>
  The options object of the factory. A JavaScript number is a \<open>rat\<close> here, so that the
  assertion that it is an integer says something; \<open>ssl\<close> and \<open>cors\<close> are booleans when
  they are given.
\<close>

record ServerOptions =
  port_opt :: "rat option"
  host_opt :: "string option"
  dir_opt :: "string option"
  ssl_opt :: "bool option"
  sslcert :: "string option"
  sslkey :: "string option"
  cors_opt :: "bool option"
  log_opt :: "string option"
  spec_opt :: "rat option"
  consumer_opt :: "string option"
  provider_opt :: "string option"

text \<open>The object \<open>{}\<close>.\<close>

definition empty_options :: ServerOptions where
  "empty_options =
     \<lparr>port_opt = None, host_opt = None, dir_opt = None, ssl_opt = None, sslcert = None,
      sslkey = None, cors_opt = None, log_opt = None, spec_opt = None, consumer_opt = None,
      provider_opt = None\<rparr>"

text \<open>What the constructor \<open>Server\<close> stores: the eleven options and \<open>_running\<close>.\<close>

record Server =
  options_of :: ServerOptions
  running :: bool

definition new_Server ::
  "rat option \<Rightarrow> string option \<Rightarrow> string option \<Rightarrow> bool option \<Rightarrow> string option \<Rightarrow>
     string option \<Rightarrow> bool option \<Rightarrow> string option \<Rightarrow> rat option \<Rightarrow> string option \<Rightarrow>
     string option \<Rightarrow> Server" where
  "new_Server p h d s cert key c l sp cons prov =
     \<lparr>options_of =
        \<lparr>port_opt = p, host_opt = h, dir_opt = d, ssl_opt = s, sslcert = cert, sslkey = key,
         cors_opt = c, log_opt = l, spec_opt = sp, consumer_opt = cons, provider_opt = prov\<rparr>,
      running = False\<rparr>"

text \<open>
  The machine the factory runs on, with a file system of type \<open>'fs\<close>: the functions of
  \<open>path\<close>, \<open>process.cwd()\<close>, whether \<open>fs.statSync\<close> returns (\<open>False\<close> when it throws)
  and \<open>mkdirp.sync\<close> (\<open>None\<close> when it throws, the new file system otherwise).
\<close>

record 'fs Host =
  path_resolve :: "string \<Rightarrow> string"
  path_normalize :: "string \<Rightarrow> string"
  path_parse_dir :: "string \<Rightarrow> string"
  process_cwd :: string
  statSync_returns :: "'fs \<Rightarrow> string \<Rightarrow> bool"
  mkdirp_sync :: "'fs \<Rightarrow> string \<Rightarrow> 'fs option"

text \<open>The predicates of \<open>check-types\<close> on a number, by their documentation.\<close>

definition checkTypes_integer :: "rat \<Rightarrow> bool" where
  "checkTypes_integer x = (of_int \<lfloor>x\<rfloor> = x)"

definition checkTypes_positive :: "rat \<Rightarrow> bool" where
  "checkTypes_positive x = (0 < x)"

definition checkTypes_inRange :: "rat \<Rightarrow> rat \<Rightarrow> rat \<Rightarrow> bool" where
  "checkTypes_inRange x a b = (a \<le> x \<and> x \<le> b)"

text \<open>The block guarded by \<open>if (options.port)\<close>: the first assertion that fails throws.\<close>

definition check_port :: "rat option \<Rightarrow> thrown option" where
  "check_port p =
     (case p of
        None \<Rightarrow> None
      | Some x \<Rightarrow>
          if x = 0 then None
          else if \<not> checkTypes_integer x then Some (AssertionFailed ''integer'')
          else if \<not> checkTypes_positive x then Some (AssertionFailed ''positive'')
          else if \<not> checkTypes_inRange x 0 65535 then Some (AssertionFailed ''inRange'')
          else None)"

text \<open>The block guarded by \<open>if (options.spec)\<close>.\<close>

definition check_spec :: "rat option \<Rightarrow> thrown option" where
  "check_spec p =
     (case p of
        None \<Rightarrow> None
      | Some x \<Rightarrow>
          if x = 0 then None
          else if \<not> checkTypes_integer x then Some (AssertionFailed ''integer'')
          else if \<not> checkTypes_positive x then Some (AssertionFailed ''positive'')
          else None)"

text \<open>
  \<open>try { fs.statSync(path.normalize(p)) } catch (e) { mkdirp.sync(path.normalize(p)) }\<close>:
  the directory is made when the probe throws, and a failure of \<open>mkdirp.sync\<close> is not
  caught.
\<close>

definition ensure_dir :: "'fs Host \<Rightarrow> 'fs \<Rightarrow> string \<Rightarrow> thrown + 'fs" where
  "ensure_dir host fs p =
     (if statSync_returns host fs p then Inr fs
      else (case mkdirp_sync host fs p of None \<Rightarrow> Inl MkdirpFailed | Some fs' \<Rightarrow> Inr fs'))"

text \<open>
  The factory \<open>module.exports\<close>, statement by statement. It returns the server and the file
  system as the two \<open>mkdirp.sync\<close> calls may have left it. The assertions that a value is
  a number, a boolean or a string hold by the types of the record, and the warning about
  the recommended range of ports writes to the log only.
\<close>

definition create_server ::
  "'fs Host \<Rightarrow> 'fs \<Rightarrow> ServerOptions option \<Rightarrow> thrown + (Server \<times> 'fs)" where
  "create_server host fs arg =
     (let o0 = (case arg of None \<Rightarrow> empty_options | Some x \<Rightarrow> x);
          o1 = o0\<lparr>ssl_opt := Some (or_false (ssl_opt o0))\<rparr>;
          o2 = o1\<lparr>cors_opt := Some (or_false (cors_opt o1))\<rparr>;
          o3 = o2\<lparr>dir_opt := Some (if truthy (dir_opt o2) then path_resolve host (str_of (dir_opt o2))
                                    else process_cwd host)\<rparr>;
          options = o3\<lparr>host_opt := Some (or_str (host_opt o3) ''localhost'')\<rparr>
      in case check_port (port_opt options) of
           Some e \<Rightarrow> Inl e
         | None \<Rightarrow>
      if (truthy (sslcert options) \<and> \<not> truthy (sslkey options))
         \<or> (\<not> truthy (sslcert options) \<and> truthy (sslkey options))
      then Inl (Error ''Custom ssl certificate and key must be specified together.'')
      else if truthy (sslcert options)
              \<and> \<not> statSync_returns host fs (path_normalize host (str_of (sslcert options)))
      then Inl (Error (''Custom ssl certificate not found at path: '' @ str_of (sslcert options)))
      else if truthy (sslkey options)
              \<and> \<not> statSync_returns host fs (path_normalize host (str_of (sslkey options)))
      then Inl (Error (''Custom ssl key not found at path: '' @ str_of (sslkey options)))
      else
        (let options = (if truthy (sslcert options) \<and> truthy (sslkey options)
                        then options\<lparr>ssl_opt := Some True\<rparr> else options)
         in case check_spec (spec_opt options) of
              Some e \<Rightarrow> Inl e
            | None \<Rightarrow>
         (case (if truthy (dir_opt options)
                then ensure_dir host fs (path_normalize host (str_of (dir_opt options)))
                else Inr fs) of
            Inl e \<Rightarrow> Inl e
          | Inr fs1 \<Rightarrow>
         (case (if truthy (log_opt options)
                then ensure_dir host fs1
                       (path_parse_dir host (path_normalize host (str_of (log_opt options))))
                else Inr fs1) of
            Inl e \<Rightarrow> Inl e
          | Inr fs2 \<Rightarrow>
              Inr (new_Server (port_opt options) (host_opt options) (dir_opt options)
                     (ssl_opt options) (sslcert options) (sslkey options) (cors_opt options)
                     (log_opt options) (spec_opt options) (consumer_opt options)
                     (provider_opt options),
                   fs2)))))"

text \<open>
  A host whose file system is the list of the paths that exist, with \<open>path\<close> functions
  that leave a path as it is.
\<close>

definition list_host :: "string list Host" where
  "list_host =
     \<lparr>path_resolve = (\<lambda>p. p), path_normalize = (\<lambda>p. p), path_parse_dir = (\<lambda>p. p),
      process_cwd = ''/work'', statSync_returns = (\<lambda>fs p. p \<in> set fs),
      mkdirp_sync = (\<lambda>fs p. Some (p # fs))\<rparr>"

section \<open>The mock server process: \<open>start\<close>, \<open>stop\<close> and the two waits\<close>

definition CHECKTIME :: nat where
  "CHECKTIME = 500"

definition RETRY_AMOUNT :: nat where
  "RETRY_AMOUNT = 60"

definition PROCESS_TIMEOUT :: nat where
  "PROCESS_TIMEOUT = 30000"

subsection \<open>Polling\<close>

text \<open>
  What one run of \<open>check\<close> finds: \<open>options.port\<close> is not known yet, or the request of
  \<open>call(options)\<close> is answered with status 200, or it fails. The world is a function from
  the number of the attempt, counted as \<open>amount\<close> counts it, to what that attempt finds.
\<close>

datatype health = NoPort | Answers | Fails

text \<open>
  What a wait does, in the order it does it: it sends the request, sets a timer for the
  next \<open>check\<close> with the delay it passes to \<open>setTimeout\<close>, resolves or rejects its
  deferred. A deferred of \<open>q\<close> is settled once: a later \<open>resolve\<close> or \<open>reject\<close> changes
  nothing.
\<close>

datatype wait_effect = HttpGet | SetTimeout nat | DeferredResolve | DeferredReject string

datatype promise_state = Pending | Fulfilled | Rejected string

definition settle :: "promise_state \<Rightarrow> promise_state \<Rightarrow> promise_state" where
  "settle p new = (if p = Pending then new else p)"

text \<open>
  The variables of a wait: the counter \<open>amount\<close>, the deferred, what it has done so far,
  and whether a timer for \<open>check\<close> is set and has not fired.
\<close>

record wait_state =
  amount :: nat
  deferred :: promise_state
  effects :: "wait_effect list"
  timer_set :: bool

definition wait_start :: wait_state where
  "wait_start = \<lparr>amount = 0, deferred = Pending, effects = [], timer_set = False\<rparr>"

definition startup_failed_message :: string where
  "startup_failed_message =
     ''Pact startup failed; tried calling service 10 times with no result.''"

definition stop_failed_message :: string where
  "stop_failed_message = ''Pact stop failed; tried calling service 10 times with no result.''"

text \<open>
  \<open>retry\<close> of \<open>waitForServerUp\<close>: the rejection is not followed by a \<open>return\<close>, so the
  timer is set in either case.
\<close>

definition up_retry :: "wait_state \<Rightarrow> wait_state" where
  "up_retry s =
     (let s1 = (if amount s \<ge> RETRY_AMOUNT
                then s\<lparr>deferred := settle (deferred s) (Rejected startup_failed_message),
                       effects := effects s @ [DeferredReject startup_failed_message]\<rparr>
                else s)
      in s1\<lparr>effects := effects s1 @ [SetTimeout CHECKTIME], timer_set := True\<rparr>)"

text \<open>\<open>check\<close> of \<open>waitForServerUp\<close>, run once.\<close>

definition up_check :: "(nat \<Rightarrow> health) \<Rightarrow> wait_state \<Rightarrow> wait_state" where
  "up_check world s =
     (let s1 = s\<lparr>amount := amount s + 1, timer_set := False\<rparr>
      in case world (amount s1) of
           NoPort \<Rightarrow> up_retry s1
         | Answers \<Rightarrow>
             s1\<lparr>deferred := settle (deferred s1) Fulfilled,
                effects := effects s1 @ [HttpGet, DeferredResolve]\<rparr>
         | Fails \<Rightarrow> up_retry (s1\<lparr>effects := effects s1 @ [HttpGet]\<rparr>))"

text \<open>
  \<open>check\<close> of \<open>waitForServerDown\<close>, run once. Here an answer means that the server is
  still up; the rejection is followed by \<open>return\<close>, and no timer is set after it.
\<close>

definition down_check :: "(nat \<Rightarrow> health) \<Rightarrow> wait_state \<Rightarrow> wait_state" where
  "down_check world s =
     (let s1 = s\<lparr>amount := amount s + 1, timer_set := False\<rparr>
      in case world (amount s1) of
           NoPort \<Rightarrow>
             s1\<lparr>deferred := settle (deferred s1) Fulfilled,
                effects := effects s1 @ [DeferredResolve]\<rparr>
         | Answers \<Rightarrow>
             if amount s1 \<ge> RETRY_AMOUNT
             then s1\<lparr>deferred := settle (deferred s1) (Rejected stop_failed_message),
                     effects := effects s1 @ [HttpGet, DeferredReject stop_failed_message]\<rparr>
             else s1\<lparr>effects := effects s1 @ [HttpGet, SetTimeout CHECKTIME],
                     timer_set := True\<rparr>
         | Fails \<Rightarrow>
             s1\<lparr>deferred := settle (deferred s1) Fulfilled,
                effects := effects s1 @ [HttpGet, DeferredResolve]\<rparr>)"

text \<open>
  The event loop lets the timers of a wait fire, at most \<open>n\<close> of them. When no timer is
  set the wait has stopped and nothing more happens.
\<close>

fun run_timers :: "(wait_state \<Rightarrow> wait_state) \<Rightarrow> nat \<Rightarrow> wait_state \<Rightarrow> wait_state" where
  "run_timers check 0 s = s"
| "run_timers check (Suc n) s = (if timer_set s then run_timers check n (check s) else s)"

text \<open>
  The two waits: \<open>check\<close> runs once at the call, then the timers fire. The second argument
  is the number of timer firings that are looked at.
\<close>

definition waitForServerUp :: "(nat \<Rightarrow> health) \<Rightarrow> nat \<Rightarrow> wait_state" where
  "waitForServerUp world n = run_timers (up_check world) n (up_check world wait_start)"

definition waitForServerDown :: "(nat \<Rightarrow> health) \<Rightarrow> nat \<Rightarrow> wait_state" where
  "waitForServerDown world n = run_timers (down_check world) n (down_check world wait_start)"

text \<open>
  What holds of the server-down wait after each run of its \<open>check\<close>: the counter has not
  passed the bound, a set timer means that the bound is not reached and the promise is
  pending, and no timer means that the promise is settled.
\<close>

definition down_inv :: "wait_state \<Rightarrow> bool" where
  "down_inv s =
     (amount s \<le> RETRY_AMOUNT
      \<and> (if timer_set s then amount s < RETRY_AMOUNT \<and> deferred s = Pending
          else deferred s \<noteq> Pending))"

subsection \<open>\<open>Server.prototype.start\<close> and \<open>Server.prototype.stop\<close>\<close>

text \<open>The decimal text of a number, as \<open>+\<close> on a string and a number writes it.\<close>

definition digit_char :: "nat \<Rightarrow> char" where
  "digit_char d = char_of (of_char CHR ''0'' + d)"

fun decimal :: "nat \<Rightarrow> string" where
  "decimal n = (if 10 \<le> n then decimal (n div 10) @ [digit_char (n mod 10)] else [digit_char n])"

declare decimal.simps [simp del]

definition decimal_int :: "int \<Rightarrow> string" where
  "decimal_int i = (if i < 0 then CHR ''-'' # decimal (nat (- i)) else decimal (nat i))"

text \<open>\<open>Array.prototype.join\<close> with a blank as the separator.\<close>

fun join_blank :: "string list \<Rightarrow> string" where
  "join_blank [] = []"
| "join_blank [x] = x"
| "join_blank (x # y # ys) = x @ '' '' @ join_blank (y # ys)"

text \<open>The child process in \<open>_instance\<close>: its process id and its property \<open>connected\<close>,
  here \<open>is_connected\<close>.\<close>

record Instance =
  pid :: nat
  is_connected :: bool

text \<open>The server object once it can hold a child process.\<close>

record ServerObject = Server +
  server_instance :: "Instance option"

text \<open>
  What \<open>start\<close> and \<open>stop\<close> do to the operating system, and the promise they return: a
  wait wrapped by \<open>.timeout(ms, message)\<close> of \<open>q\<close>.
\<close>

datatype process_effect =
    Spawn string "string list" bool
  | RemoveAllListeners
  | ProcessKill int string
  | ExecSync string

datatype wait_kind = ServerUp | ServerDown

record timed_wait =
  waits_for :: wait_kind
  timeout_ms :: nat
  timeout_message :: string

text \<open>
  What \<open>start\<close> and \<open>stop\<close> ask of the machine: whether the platform is \<open>win32\<close>, the
  binary \<open>pactPath.file\<close>, the arguments that \<open>pactUtil.createArguments\<close> builds from the
  options, the child that \<open>cp.spawn\<close> gives back, and whether \<open>process.kill\<close> or
  \<open>cp.execSync\<close> returns (\<open>False\<close> when it throws).
\<close>

record Platform =
  isWindows :: bool
  pactPath_file :: string
  createArguments :: "ServerOptions \<Rightarrow> string list"
  spawned :: Instance
  kill_returns :: bool

text \<open>
  \<open>start\<close>. With a connected child it warns and returns \<open>undefined\<close>. Otherwise it
  spawns the binary through the shell of the platform, detached unless the platform is
  \<open>win32\<close>, and returns the server-up wait under the timeout. Of the options of
  \<open>cp.spawn\<close> the effect keeps \<open>detached\<close>. The listeners it attaches and the \<open>tap\<close>
  that sets \<open>_running\<close> run later, on events, and are left out.
\<close>

definition start ::
  "Platform \<Rightarrow> ServerObject \<Rightarrow> ServerObject \<times> process_effect list \<times> timed_wait option" where
  "start os srv =
     (if (case server_instance srv of None \<Rightarrow> False | Some i \<Rightarrow> is_connected i)
      then (srv, [], None)
      else
        (let cmd = join_blank ([pactPath_file os] @ createArguments os (options_of srv));
             file = (if isWindows os then ''cmd.exe'' else ''/bin/sh'');
             args = (if isWindows os then [''/s'', ''/c'', cmd] else [''-c'', ''./'' @ cmd])
         in (srv\<lparr>server_instance := Some (spawned os)\<rparr>,
             [Spawn file args (\<not> isWindows os)],
             Some \<lparr>waits_for = ServerUp, timeout_ms = PROCESS_TIMEOUT,
                   timeout_message =
                     ''Couldn'' @ [CHR 0x27] @ ''t start Pact with PID: ''
                       @ decimal (pid (spawned os))\<rparr>)))"

text \<open>
  \<open>stop\<close>. With a child it removes the listeners and kills: on \<open>win32\<close> the process tree
  with \<open>taskkill\<close>, elsewhere the process group with \<open>process.kill(-pid, 'SIGINT')\<close>. An
  exception of the kill leaves \<open>stop\<close> with the child still in \<open>_instance\<close>. Then it
  returns the server-down wait under the timeout.
\<close>

definition stop ::
  "Platform \<Rightarrow> ServerObject \<Rightarrow>
     process_effect list \<times> (thrown + ServerObject \<times> timed_wait)" where
  "stop os srv =
     (case server_instance srv of
        None \<Rightarrow>
          ([], Inr (srv,
             \<lparr>waits_for = ServerDown, timeout_ms = PROCESS_TIMEOUT,
              timeout_message =
                ''Couldn'' @ [CHR 0x27] @ ''t stop Pact with PID: '' @ decimal_int (- 1)\<rparr>))
      | Some i \<Rightarrow>
          (let kill = (if isWindows os
                       then ExecSync (''taskkill /f /t /pid '' @ decimal (pid i))
                       else ProcessKill (- int (pid i)) ''SIGINT'')
           in if \<not> kill_returns os then ([RemoveAllListeners, kill], Inl KillFailed)
              else ([RemoveAllListeners, kill],
                    Inr (srv\<lparr>server_instance := None\<rparr>,
                      \<lparr>waits_for = ServerDown, timeout_ms = PROCESS_TIMEOUT,
                       timeout_message =
                         ''Couldn'' @ [CHR 0x27] @ ''t stop Pact with PID: ''
                           @ decimal (pid i)\<rparr>))))"

text \<open>A Linux machine that gives the child the process id 4242.\<close>

definition sample_platform :: Platform where
  "sample_platform =
     \<lparr>isWindows = False, pactPath_file = ''bin/pact-mock-service'',
      createArguments = (\<lambda>_. [''--port'', ''1234'']),
      spawned = \<lparr>pid = 4242, is_connected = False\<rparr>, kill_returns = True\<rparr>"

section \<open>A sample machine\<close>

text \<open>
  What Node answers for a few locations, as the library documents it. The legacy parser
  \<open>url.parse\<close> reports the protocol \<open>xhttp:\<close> for \<open>xhttp:foo\<close> and \<open>null\<close> for a plain
  path, and it throws a \<open>URIError\<close> on \<open>http://%E0%A4%A@host/\<close>, whose user name is
  not a valid percent encoding; \<open>new URL\<close> throws on \<open>http://\<close>, gives an empty host
  for \<open>xhttp:foo\<close> and an empty port where the location names none. On the disk, \<open>./pacts\<close> is a directory,
  \<open>./pact.json\<close> a regular file, \<open>/dev/null\<close> a character device, and a regular file
  named \<open>xhttp:foo\<close> and a directory \<open>http:\<close> exist too.
\<close>

definition sample_protocols :: "(string \<times> string) list" where
  "sample_protocols =
     [(''xhttp:foo'', ''xhttp:''),
      (''http://'', ''http:''),
      (''http://localhost/'', ''http:''),
      (''http://localhost:8080/'', ''http:''),
      (''https://broker.example/pact.json'', ''https:'')]"

definition sample_urls :: "(string \<times> URL) list" where
  "sample_urls =
     [(''xhttp:foo'',
         \<lparr>protocol = ''xhttp:'', hostname = [], port = [], pathname = ''foo''\<rparr>),
      (''http://localhost/'',
         \<lparr>protocol = ''http:'', hostname = ''localhost'', port = [], pathname = ''/''\<rparr>),
      (''http://localhost:8080/'',
         \<lparr>protocol = ''http:'', hostname = ''localhost'', port = ''8080'', pathname = ''/''\<rparr>),
      (''https://broker.example/pact.json'',
         \<lparr>protocol = ''https:'', hostname = ''broker.example'', port = [],
          pathname = ''/pact.json''\<rparr>)]"

definition sample_disk :: "(string \<times> Stats) list" where
  "sample_disk =
     [(''./pacts'', \<lparr>isDirectory = True, isFile = False, isSymbolicLink = False\<rparr>),
      (''./pact.json'', \<lparr>isDirectory = False, isFile = True, isSymbolicLink = False\<rparr>),
      (''/dev/null'', \<lparr>isDirectory = False, isFile = False, isSymbolicLink = False\<rparr>),
      (''xhttp:foo'', \<lparr>isDirectory = False, isFile = True, isSymbolicLink = False\<rparr>),
      (''http://'', \<lparr>isDirectory = True, isFile = False, isSymbolicLink = False\<rparr>)]"

definition sample_node :: "unit Node" where
  "sample_node =
     \<lparr>process_env = (\<lambda>_. None),
      url_parse_protocol =
        (\<lambda>s. if s = ''http://%E0%A4%A@host/'' then Inl URIError
             else Inr (map_of sample_protocols s)),
      new_URL = map_of sample_urls, lstatSync = map_of sample_disk,
      JSON_stringify = (\<lambda>_. ''{}'')\<rparr>"

section \<open>The precedence rule in the words of the specification\<close>

text \<open>
  The specification words the resolution of a broker credential as: the explicit option,
  else the environment variable, else the empty string. This definition follows those
  words; the theorems compare it with what the source computes.
\<close>

definition explicit_then_env :: "string option \<Rightarrow> string option \<Rightarrow> string" where
  "explicit_then_env explicit env =
     (if truthy explicit then str_of explicit
      else if truthy env then str_of env
      else [])"

section \<open>Properties of the order of execution\<close>

text \<open>
  C1. The table gives the nine descriptor names the numbers 1 to 9 in the sequence provider
  info, filter info, provider state, verification options, publish options, consumer
  filters, custom header, directory source, broker source with selectors. The numbers are
  positive, no two are equal, they increase strictly along that sequence, and sorting the
  table by number gives the sequence back. The two merged calls, file source and URL
  source, have no entry.
\<close>

theorem orderOfExecution_strict_total:
  "map fst (sort_key snd orderOfExecution) =
     [pactffiVerifierSetProviderInfo, pactffiVerifierSetFilterInfo,
      pactffiVerifierSetProviderState, pactffiVerifierSetVerificationOptions,
      pactffiVerifierSetPublishOptions, pactffiVerifierSetConsumerFilters,
      pactffiVerifierAddCustomHeader, pactffiVerifierAddDirectorySource,
      pactffiVerifierBrokerSourceWithSelectors]
   \<and> map snd (sort_key snd orderOfExecution) = [1, 2, 3, 4, 5, 6, 7, 8, 9]
   \<and> sorted_wrt (<) (map snd (sort_key snd orderOfExecution))
   \<and> distinct (map snd orderOfExecution)
   \<and> distinct (map fst orderOfExecution)
   \<and> list_all (\<lambda>k. 0 < k) (map snd orderOfExecution)
   \<and> length orderOfExecution = 9
   \<and> list_all (\<lambda>n. map_of orderOfExecution n = None) MergedFfiSourceFunctions"
  by (simp add: orderOfExecution_def MergedFfiSourceFunctions_def)

section \<open>Properties of the custom header descriptor\<close>

subsection \<open>Splitting a string\<close>

lemma split_str_length: "length (split_str sep s) = Suc (count_list s sep)"
  by (induction s) auto

lemma split_str_no_sep: "sep \<notin> set s \<Longrightarrow> split_str sep s = [s]"
  by (induction s) auto

lemma count_list_0_notin: "count_list s sep = 0 \<Longrightarrow> sep \<notin> set s"
  by (induction s) (auto split: if_splits)

lemma split_str_hd: "hd (split_str sep s) = takeWhile (\<lambda>c. c \<noteq> sep) s"
  by (induction s) auto

lemma split_str_one_sep:
  "count_list s sep = 1 \<Longrightarrow>
     split_str sep s = [takeWhile (\<lambda>c. c \<noteq> sep) s, tl (dropWhile (\<lambda>c. c \<noteq> sep) s)]"
proof (induction s)
  case Nil
  then show ?case by simp
next
  case (Cons c cs)
  show ?case
  proof (cases "c = sep")
    case True
    with Cons.prems have "count_list cs sep = 0" by simp
    then have "sep \<notin> set cs" by (rule count_list_0_notin)
    with True show ?thesis by (simp add: split_str_no_sep)
  next
    case False
    with Cons.prems have "count_list cs sep = 1" by simp
    with Cons.IH False show ?thesis by simp
  qed
qed

subsection \<open>One entry, then the whole array\<close>

lemma customHeader_item_fst:
  "fst (customHeader_item handle item st) =
     fst st @ (if count_list item CHR '':'' = 1
               then [AddCustomHeader handle (takeWhile (\<lambda>c. c \<noteq> CHR '':'') item)
                       (tl (dropWhile (\<lambda>c. c \<noteq> CHR '':'') item))]
               else [])"
  by (simp add: customHeader_item_def Let_def split_str_length split_str_one_sep)

lemma customHeader_item_snd:
  "snd (customHeader_item handle item st) =
     snd st @ (if count_list item CHR '':'' = 1 then [] else [invalid_header_message item])"
  by (simp add: customHeader_item_def Let_def split_str_length)

lemma customHeader_fold_fst:
  "fst (fold (customHeader_item handle) items st) =
     fst st @ map (\<lambda>item. AddCustomHeader handle (takeWhile (\<lambda>c. c \<noteq> CHR '':'') item)
                       (tl (dropWhile (\<lambda>c. c \<noteq> CHR '':'') item)))
                (filter (\<lambda>item. count_list item CHR '':'' = 1) items)"
  by (induction items arbitrary: st) (simp_all add: customHeader_item_fst)

lemma customHeader_fold_snd:
  "snd (fold (customHeader_item handle) items st) =
     snd st @ map invalid_header_message
                (filter (\<lambda>item. count_list item CHR '':'' \<noteq> 1) items)"
  by (induction items arbitrary: st) (simp_all add: customHeader_item_snd)

text \<open>No result of this descriptor has the \<open>messages\<close> property.\<close>

lemma customHeader_result_has_no_messages:
  "snd (AddCustomHeader_validateAndExecute node handle options) = Inr r \<Longrightarrow> messages r = None"
  by (auto simp: AddCustomHeader_validateAndExecute_def returns_def Let_def
      split: option.splits CustomHeaders.splits if_splits)

text \<open>
  C2. On the array \<open>["X-Test: 1", "BadHeader"]\<close> the descriptor calls the engine for the
  well-formed entry only and returns \<open>FAIL\<close>, but the result carries no message: the
  message for \<open>BadHeader\<close> is built in the local array and is not returned.
\<close>

theorem customHeader_FAIL_without_messages:
  "AddCustomHeader_validateAndExecute sample_node (0::nat)
     ((no_options ''http://localhost:8080/'')
        \<lparr>customProviderHeaders := Some (HeaderArray [''X-Test: 1'', ''BadHeader''])\<rparr>)
   = ([AddCustomHeader 0 ''X-Test'' '' 1''], Inr \<lparr>status = FAIL, messages = None\<rparr>)
   \<and> snd (fold (customHeader_item (0::nat)) [''X-Test: 1'', ''BadHeader''] ([], []))
     = [invalid_header_message ''BadHeader'']"
  by (simp add: AddCustomHeader_validateAndExecute_def no_options_def customHeader_item_def
      returns_def)

text \<open>
  C3, as the claim states it, fails: \<open>X-Link: http://x\<close> has a name part and a value part
  when it is cut at its first colon, yet the descriptor makes no call for it and returns
  \<open>FAIL\<close>.
\<close>

theorem customHeader_first_colon_counterexample:
  "takeWhile (\<lambda>c. c \<noteq> CHR '':'') ''X-Link: http://x'' = ''X-Link''
   \<and> tl (dropWhile (\<lambda>c. c \<noteq> CHR '':'') ''X-Link: http://x'') = '' http://x''
   \<and> AddCustomHeader_validateAndExecute sample_node (0::nat)
        ((no_options ''http://localhost:8080/'')
           \<lparr>customProviderHeaders := Some (HeaderArray [''X-Link: http://x''])\<rparr>)
      = ([], Inr \<lparr>status = FAIL, messages = None\<rparr>)"
  by (simp add: AddCustomHeader_validateAndExecute_def no_options_def customHeader_item_def
      returns_def)

text \<open>
  C3, amended. Every entry of the array is cut at each of its colons. An entry with
  exactly one colon is well-formed: it gives exactly one \<open>AddCustomHeader\<close> call, with the
  text before the colon as the name and the text after it, untrimmed, as the value. An
  entry with no colon or with more than one is malformed and gives no call. The calls
  keep the order of the array, and the status is \<open>SUCCESS\<close> exactly when every entry is
  well-formed.
\<close>

theorem customHeader_exactly_one_colon:
  "customProviderHeaders options = Some (HeaderArray items) \<Longrightarrow>
     fst (AddCustomHeader_validateAndExecute node handle options) =
       map (\<lambda>item. AddCustomHeader handle (takeWhile (\<lambda>c. c \<noteq> CHR '':'') item)
                      (tl (dropWhile (\<lambda>c. c \<noteq> CHR '':'') item)))
           (filter (\<lambda>item. count_list item CHR '':'' = 1) items)
     \<and> snd (AddCustomHeader_validateAndExecute node handle options) =
         returns (if list_all (\<lambda>item. count_list item CHR '':'' = 1) items
                  then SUCCESS else FAIL)"
  by (simp add: AddCustomHeader_validateAndExecute_def Let_def customHeader_fold_fst
      customHeader_fold_snd list_all_iff filter_empty_conv)

theorem customHeader_exactly_one_colon_witness:
  "customProviderHeaders
     ((no_options ''http://localhost:8080/'')
        \<lparr>customProviderHeaders :=
           Some (HeaderArray [''X-Test: 1'', ''X-Link: http://x'', ''BadHeader''])\<rparr>
      :: unit InternalPactVerifierOptions)
   = Some (HeaderArray [''X-Test: 1'', ''X-Link: http://x'', ''BadHeader''])
   \<and> fst (AddCustomHeader_validateAndExecute sample_node (0::nat)
        ((no_options ''http://localhost:8080/'')
           \<lparr>customProviderHeaders :=
              Some (HeaderArray [''X-Test: 1'', ''X-Link: http://x'', ''BadHeader''])\<rparr>))
     = [AddCustomHeader 0 ''X-Test'' '' 1'']
   \<and> snd (AddCustomHeader_validateAndExecute sample_node (0::nat)
        ((no_options ''http://localhost:8080/'')
           \<lparr>customProviderHeaders :=
              Some (HeaderArray [''X-Test: 1'', ''X-Link: http://x'', ''BadHeader''])\<rparr>))
     = returns FAIL"
  using customHeader_exactly_one_colon
    [of "(no_options ''http://localhost:8080/'')
           \<lparr>customProviderHeaders :=
              Some (HeaderArray [''X-Test: 1'', ''X-Link: http://x'', ''BadHeader''])\<rparr>"
        "[''X-Test: 1'', ''X-Link: http://x'', ''BadHeader'']" sample_node "0::nat"]
  by (simp add: no_options_def)

section \<open>Properties of the directory source descriptor\<close>




text \<open>
  An exception of \<open>url.parse\<close> leaves the descriptor: the calls made before it stay made,
  and the locations after it are not visited.
\<close>

lemma directorySource_url_parse_throws:
  "AddDirectorySource_validateAndExecute sample_node (0::nat)
     ((no_options ''http://localhost:8080/'')
        \<lparr>pactUrls := Some [''./pacts'', ''http://%E0%A4%A@host/'', ''./pact.json'']\<rparr>)
   = ([AddDirectorySource 0 ''./pacts''], Inl URIError)"
  by (simp add: AddDirectorySource_validateAndExecute_def pactUrl_item_def sample_node_def
      sample_protocols_def sample_urls_def sample_disk_def or_str_def no_options_def)

text \<open>
  C5. The location \<open>/dev/null\<close> exists and is neither a directory, a regular file nor a
  symbolic link. The descriptor makes no call for it, which is right, but it records no
  message either and returns \<open>SUCCESS\<close>. In a list with other locations the remaining
  ones are still processed, and only the missing path gets a message.
\<close>

theorem directorySource_silent_on_other_file_type:
  "lstatSync sample_node ''/dev/null''
     = Some \<lparr>isDirectory = False, isFile = False, isSymbolicLink = False\<rparr>
   \<and> AddDirectorySource_validateAndExecute sample_node (0::nat)
        ((no_options ''http://localhost:8080/'')\<lparr>pactUrls := Some [''/dev/null'']\<rparr>)
      = ([], Inr \<lparr>status = SUCCESS, messages = None\<rparr>)
   \<and> AddDirectorySource_validateAndExecute sample_node (0::nat)
        ((no_options ''http://localhost:8080/'')
           \<lparr>pactUrls := Some [''./missing'', ''/dev/null'', ''./pacts'']\<rparr>)
      = ([AddDirectorySource 0 ''./pacts''],
         Inr \<lparr>status = FAIL, messages = Some [missing_file_message ''./missing'']\<rparr>)"
  by (simp add: AddDirectorySource_validateAndExecute_def pactUrl_item_def sample_node_def
      sample_protocols_def sample_urls_def sample_disk_def or_str_def returns_def no_options_def)

section \<open>Properties of the provider info descriptor\<close>

subsection \<open>\<open>parseInt\<close> on a port\<close>

lemma parseInt10_empty: "parseInt10 [] = None"
  by (simp add: parseInt10_def)

lemma is_digit_not_white: "is_digit c \<Longrightarrow> \<not> is_white c"
  by (auto simp: is_digit_def is_white_def)

lemma is_digit_not_sign: "is_digit c \<Longrightarrow> c \<noteq> CHR ''-'' \<and> c \<noteq> CHR ''+''"
  by (auto simp: is_digit_def)

lemma takeWhile_all: "list_all P s \<Longrightarrow> takeWhile P s = s"
  by (induction s) auto

lemma parseInt10_digits:
  assumes "s \<noteq> []" and "list_all is_digit s"
  shows "parseInt10 s = Some (digits_val s)"
proof -
  from assms obtain c cs where s: "s = c # cs" by (cases s) auto
  with assms(2) have c: "is_digit c" by simp
  from c have w: "\<not> is_white c" by (rule is_digit_not_white)
  from c have sg: "c \<noteq> CHR ''-''" "c \<noteq> CHR ''+''" using is_digit_not_sign by auto
  from w s have d: "dropWhile is_white s = s" by simp
  from assms(2) have t: "takeWhile is_digit s = s" by (rule takeWhile_all)
  show ?thesis
    unfolding parseInt10_def Let_def d using s sg t assms(1) by simp
qed

lemma digits_val_foldl_nonneg:
  "0 \<le> n \<Longrightarrow> list_all is_digit s \<Longrightarrow> 0 \<le> foldl (\<lambda>n c. 10 * n + digit_val c) n s"
proof (induction s arbitrary: n)
  case Nil
  then show ?case by simp
next
  case (Cons c cs)
  from Cons.prems have "0 \<le> digit_val c"
    by (auto simp: is_digit_def digit_val_def)
  with Cons show ?case by simp
qed

subsection \<open>The descriptor\<close>

text \<open>
  C6, as the claim states it, fails on the port. For the base URL \<open>http://localhost/\<close>
  the \<open>port\<close> property of the URL is the empty string, \<open>parseInt\<close> of it is \<open>NaN\<close>,
  and that is what the call passes as the port: not an integer.
\<close>

theorem SetProviderInfo_NaN_port_counterexample:
  "new_URL sample_node ''http://localhost/''
     = Some \<lparr>protocol = ''http:'', hostname = ''localhost'', port = [], pathname = ''/''\<rparr>
   \<and> SetProviderInfo_validateAndExecute sample_node (0::nat) (no_options ''http://localhost/'')
      = ([SetProviderInfo 0 [] ''http'' ''localhost'' None ''/''],
         Inr \<lparr>status = SUCCESS, messages = None\<rparr>)"
  by (simp add: SetProviderInfo_validateAndExecute_def sample_node_def sample_urls_def
      no_options_def or_str_def returns_def parseInt10_empty)

text \<open>
  C6, amended. The descriptor never returns \<open>IGNORE\<close> or \<open>FAIL\<close>. When the base URL
  parses, it makes exactly one \<open>SetProviderInfo\<close> call with the provider name, the scheme
  (the protocol up to its colon), the host, \<open>parseInt(port, 10)\<close> and the path, and returns
  \<open>SUCCESS\<close>; the port passed is a non-negative integer when the URL's port string is a
  non-empty string of digits and \<open>NaN\<close> when it is empty. When the base URL does not
  parse, the exception leaves the descriptor and no call is made.
\<close>

theorem SetProviderInfo_always_applicable:
  "(new_URL node (providerBaseUrl options) = Some uri \<longrightarrow>
      SetProviderInfo_validateAndExecute node handle options
        = ([SetProviderInfo handle
              (or_str (provider options) [])
              (takeWhile (\<lambda>c. c \<noteq> CHR '':'') (protocol uri))
              (hostname uri)
              (parseInt10 (port uri))
              (pathname uri)],
           Inr \<lparr>status = SUCCESS, messages = None\<rparr>))
   \<and> (new_URL node (providerBaseUrl options) = None \<longrightarrow>
      SetProviderInfo_validateAndExecute node handle options = ([], Inl TypeError_Invalid_URL))
   \<and> (port uri \<noteq> [] \<and> list_all is_digit (port uri) \<longrightarrow>
      parseInt10 (port uri) = Some (digits_val (port uri)) \<and> 0 \<le> digits_val (port uri))
   \<and> (port uri = [] \<longrightarrow> parseInt10 (port uri) = None)"
proof (intro conjI impI)
  assume "new_URL node (providerBaseUrl options) = Some uri"
  then show "SetProviderInfo_validateAndExecute node handle options
        = ([SetProviderInfo handle
              (or_str (provider options) [])
              (takeWhile (\<lambda>c. c \<noteq> CHR '':'') (protocol uri))
              (hostname uri)
              (parseInt10 (port uri))
              (pathname uri)],
           Inr \<lparr>status = SUCCESS, messages = None\<rparr>)"
    by (simp add: SetProviderInfo_validateAndExecute_def returns_def split_str_hd)
next
  assume "new_URL node (providerBaseUrl options) = None"
  then show "SetProviderInfo_validateAndExecute node handle options = ([], Inl TypeError_Invalid_URL)"
    by (simp add: SetProviderInfo_validateAndExecute_def)
next
  assume "port uri \<noteq> [] \<and> list_all is_digit (port uri)"
  then show "parseInt10 (port uri) = Some (digits_val (port uri))"
    by (simp add: parseInt10_digits)
next
  assume "port uri \<noteq> [] \<and> list_all is_digit (port uri)"
  then show "0 \<le> digits_val (port uri)"
    unfolding digits_val_def by (intro digits_val_foldl_nonneg) simp_all
next
  assume "port uri = []"
  then show "parseInt10 (port uri) = None"
    by (simp add: parseInt10_empty)
qed

theorem SetProviderInfo_always_applicable_witness:
  "new_URL sample_node
       (providerBaseUrl ((no_options ''http://localhost:8080/'')\<lparr>provider := Some ''P''\<rparr>
          :: unit InternalPactVerifierOptions))
     = Some \<lparr>protocol = ''http:'', hostname = ''localhost'', port = ''8080'', pathname = ''/''\<rparr>
   \<and> SetProviderInfo_validateAndExecute sample_node (0::nat)
        ((no_options ''http://localhost:8080/'')\<lparr>provider := Some ''P''\<rparr>)
      = ([SetProviderInfo 0 ''P'' ''http'' ''localhost'' (Some 8080) ''/''],
         Inr \<lparr>status = SUCCESS, messages = None\<rparr>)
   \<and> new_URL sample_node (providerBaseUrl (no_options ''not a url'' :: unit InternalPactVerifierOptions))
      = None
   \<and> SetProviderInfo_validateAndExecute sample_node (0::nat) (no_options ''not a url'')
      = ([], Inl TypeError_Invalid_URL)"
proof -
  have u: "new_URL sample_node
       (providerBaseUrl ((no_options ''http://localhost:8080/'')\<lparr>provider := Some ''P''\<rparr>
          :: unit InternalPactVerifierOptions))
     = Some \<lparr>protocol = ''http:'', hostname = ''localhost'', port = ''8080'', pathname = ''/''\<rparr>"
    by (simp add: sample_node_def sample_urls_def no_options_def)
  have n: "new_URL sample_node
       (providerBaseUrl (no_options ''not a url'' :: unit InternalPactVerifierOptions)) = None"
    by (simp add: sample_node_def sample_urls_def no_options_def)
  have p: "parseInt10 ''8080'' = Some 8080"
    by (simp add: parseInt10_def is_white_def is_digit_def digits_val_def digit_val_def)
  from SetProviderInfo_always_applicable
    [of sample_node "(no_options ''http://localhost:8080/'')\<lparr>provider := Some ''P''\<rparr>"
        "\<lparr>protocol = ''http:'', hostname = ''localhost'', port = ''8080'', pathname = ''/''\<rparr>"
        "0::nat"] u
  have a: "SetProviderInfo_validateAndExecute sample_node (0::nat)
        ((no_options ''http://localhost:8080/'')\<lparr>provider := Some ''P''\<rparr>)
      = ([SetProviderInfo 0 ''P'' ''http'' ''localhost'' (Some 8080) ''/''],
         Inr \<lparr>status = SUCCESS, messages = None\<rparr>)"
    by (simp add: p or_str_def)
  from SetProviderInfo_always_applicable
    [of sample_node "no_options ''not a url''" _ "0::nat"] n
  have b: "SetProviderInfo_validateAndExecute sample_node (0::nat) (no_options ''not a url'')
      = ([], Inl TypeError_Invalid_URL)"
    by simp
  from u a n b show ?thesis by simp
qed

section \<open>Properties of the publish options descriptor\<close>

text \<open>
  C7. The descriptor returns \<open>SUCCESS\<close> and makes exactly one \<open>SetPublishOptions\<close> call
  when the publish flag is true or the variable
  \<open>PACT_BROKER_PUBLISH_VERIFICATION_RESULTS\<close> is set, and a provider version is present;
  in every other case it makes no call and returns \<open>IGNORE\<close>. The branch argument is
  \<open>providerVersionBranch\<close>, else \<open>providerBranch\<close>, else the empty string. A variable
  is set, and an option present, in the sense of the source's tests: defined and not the
  empty string.
\<close>

theorem SetPublishOptions_applicable_iff:
  "fst (SetPublishOptions_validateAndExecute node handle options)
     = (if (publishVerificationResult options = Some True
              \<or> truthy (process_env node ''PACT_BROKER_PUBLISH_VERIFICATION_RESULTS''))
           \<and> truthy (providerVersion options)
        then [SetPublishOptions handle
                (str_of (providerVersion options))
                (or_str (buildUrl options) [])
                (or_empty (providerVersionTags options))
                (if truthy (providerVersionBranch options)
                 then str_of (providerVersionBranch options)
                 else if truthy (providerBranch options) then str_of (providerBranch options)
                 else [])]
        else [])
   \<and> snd (SetPublishOptions_validateAndExecute node handle options)
     = Inr \<lparr>status =
              (if (publishVerificationResult options = Some True
                     \<or> truthy (process_env node ''PACT_BROKER_PUBLISH_VERIFICATION_RESULTS''))
                  \<and> truthy (providerVersion options)
               then SUCCESS else IGNORE),
            messages = None\<rparr>"
proof -
  have f: "or_false (publishVerificationResult options)
             = (publishVerificationResult options = Some True)"
    by (simp add: or_false_def split: option.splits)
  have b: "or_str (or_undefined (providerVersionBranch options) (providerBranch options)) []
             = (if truthy (providerVersionBranch options)
                then str_of (providerVersionBranch options)
                else if truthy (providerBranch options) then str_of (providerBranch options)
                else [])"
    by (simp add: or_str_def or_undefined_def truthy_def str_of_def split: option.splits)
  show ?thesis
  proof (cases "providerVersion options")
    case None
    then show ?thesis
      by (simp add: SetPublishOptions_validateAndExecute_def returns_def truthy_def)
  next
    case (Some v)
    then show ?thesis
      unfolding SetPublishOptions_validateAndExecute_def f b
      by (simp add: returns_def truthy_def str_of_def)
  qed
qed

theorem SetPublishOptions_applicable_iff_witness:
  "SetPublishOptions_validateAndExecute sample_node (0::nat)
     ((no_options ''http://localhost:8080/'')\<lparr>publishVerificationResult := Some True\<rparr>)
   = ([], Inr \<lparr>status = IGNORE, messages = None\<rparr>)
   \<and> SetPublishOptions_validateAndExecute
       (sample_node\<lparr>process_env := [''PACT_BROKER_PUBLISH_VERIFICATION_RESULTS'' \<mapsto> ''true'']\<rparr>)
       (0::nat)
       ((no_options ''http://localhost:8080/'')
          \<lparr>providerVersion := Some ''1.0.0'', providerBranch := Some ''main''\<rparr>)
     = ([SetPublishOptions 0 ''1.0.0'' [] [] ''main''],
        Inr \<lparr>status = SUCCESS, messages = None\<rparr>)"
  using SetPublishOptions_applicable_iff
    [of sample_node "0::nat"
        "(no_options ''http://localhost:8080/'')\<lparr>publishVerificationResult := Some True\<rparr>"]
    SetPublishOptions_applicable_iff
    [of "sample_node\<lparr>process_env := [''PACT_BROKER_PUBLISH_VERIFICATION_RESULTS'' \<mapsto> ''true'']\<rparr>"
        "0::nat"
        "(no_options ''http://localhost:8080/'')
          \<lparr>providerVersion := Some ''1.0.0'', providerBranch := Some ''main''\<rparr>"]
  by (simp add: prod_eq_iff no_options_def sample_node_def truthy_def str_of_def or_str_def
      or_empty_def)

section \<open>Properties of the broker fields\<close>

subsection \<open>The fallback chain of the source and the rule of the specification\<close>

lemma or_chain_explicit_then_env: "or_str (or_undefined a b) [] = explicit_then_env a b"
  by (simp add: or_str_def or_undefined_def explicit_then_env_def truthy_def str_of_def
      split: option.splits)

lemma or_undefined_truthy:
  "truthy a \<or> truthy b \<Longrightarrow>
     or_undefined a b = Some (explicit_then_env a b) \<and> explicit_then_env a b \<noteq> []"
  by (cases a; cases b)
     (auto simp: or_undefined_def truthy_def explicit_then_env_def str_of_def)

lemma pactUrl_item_UrlSource:
  "pactUrl_item node handle opts file st = Inr st' \<Longrightarrow>
   UrlSource h f a b c \<in> set (fst st') \<Longrightarrow>
     UrlSource h f a b c \<in> set (fst st)
     \<or> (a = explicit_then_env (pactBrokerUsername opts) (process_env node ''PACT_BROKER_USERNAME'')
        \<and> b = explicit_then_env (pactBrokerPassword opts) (process_env node ''PACT_BROKER_PASSWORD'')
        \<and> c = explicit_then_env (pactBrokerToken opts) (process_env node ''PACT_BROKER_TOKEN''))"
  unfolding pactUrl_item_def or_chain_explicit_then_env
  by (auto split: if_splits option.splits sum.splits)

lemma pactUrls_forEach_UrlSource:
  "UrlSource h f a b c \<in> set (fst (fst (pactUrls_forEach node handle opts files st))) \<Longrightarrow>
     UrlSource h f a b c \<in> set (fst st)
     \<or> (a = explicit_then_env (pactBrokerUsername opts) (process_env node ''PACT_BROKER_USERNAME'')
        \<and> b = explicit_then_env (pactBrokerPassword opts) (process_env node ''PACT_BROKER_PASSWORD'')
        \<and> c = explicit_then_env (pactBrokerToken opts) (process_env node ''PACT_BROKER_TOKEN''))"
proof (induction files arbitrary: st)
  case Nil
  then show ?case by simp
next
  case (Cons x xs)
  show ?case
  proof (cases "pactUrl_item node handle opts x st")
    case (Inl e)
    with Cons.prems show ?thesis by simp
  next
    case (Inr st')
    with Cons.prems
    have "UrlSource h f a b c \<in> set (fst (fst (pactUrls_forEach node handle opts xs st')))"
      by simp
    from Cons.IH [OF this] show ?thesis
      using pactUrl_item_UrlSource [OF Inr, of h f a b c] by blast
  qed
qed

lemma broker_call_fields:
  assumes "(truthy (pactBrokerUrl opts) \<or> truthy (process_env node ''PACT_BROKER_BASE_URL''))
       \<and> truthy (provider opts)"
  shows "fst (BrokerSourceWithSelectors_validateAndExecute node handle opts) =
        [BrokerSourceWithSelectors handle
           (explicit_then_env (pactBrokerUrl opts) (process_env node ''PACT_BROKER_BASE_URL''))
           (explicit_then_env (pactBrokerUsername opts) (process_env node ''PACT_BROKER_USERNAME''))
           (explicit_then_env (pactBrokerPassword opts) (process_env node ''PACT_BROKER_PASSWORD''))
           (explicit_then_env (pactBrokerToken opts) (process_env node ''PACT_BROKER_TOKEN''))
           (or_false (enablePending opts))
           (or_str (includeWipPactsSince opts) [])
           (or_empty (providerVersionTags opts))
           (or_str (or_undefined (providerVersionBranch opts) (providerBranch opts)) [])
           (case consumerVersionSelectors opts of
              None \<Rightarrow> []
            | Some sels \<Rightarrow> objArrayToStringArray node sels)
           (or_empty (consumerVersionTags opts))]"
proof -
  from assms
  have u: "or_undefined (pactBrokerUrl opts) (process_env node ''PACT_BROKER_BASE_URL'')
      = Some (explicit_then_env (pactBrokerUrl opts) (process_env node ''PACT_BROKER_BASE_URL''))"
      "explicit_then_env (pactBrokerUrl opts) (process_env node ''PACT_BROKER_BASE_URL'') \<noteq> []"
    using or_undefined_truthy by blast+
  with assms show ?thesis
    unfolding BrokerSourceWithSelectors_validateAndExecute_def Let_def
    by (simp add: or_chain_explicit_then_env)
qed

lemma broker_ignored_without_url:
  assumes "\<not> truthy (pactBrokerUrl opts) \<and> \<not> truthy (process_env node ''PACT_BROKER_BASE_URL'')"
  shows "BrokerSourceWithSelectors_validateAndExecute node handle opts = ([], returns IGNORE)"
  using assms unfolding BrokerSourceWithSelectors_validateAndExecute_def Let_def
  by (auto simp: or_undefined_def truthy_def split: option.splits)

lemma directorySource_UrlSource_fields:
  assumes m: "UrlSource h f a b c
      \<in> set (fst (AddDirectorySource_validateAndExecute node handle opts))"
  shows "a = explicit_then_env (pactBrokerUsername opts) (process_env node ''PACT_BROKER_USERNAME'')
      \<and> b = explicit_then_env (pactBrokerPassword opts) (process_env node ''PACT_BROKER_PASSWORD'')
      \<and> c = explicit_then_env (pactBrokerToken opts) (process_env node ''PACT_BROKER_TOKEN'')"
proof (cases "pactUrls opts")
  case None
  with m show ?thesis by (simp add: AddDirectorySource_validateAndExecute_def)
next
  case (Some files)
  have "fst (AddDirectorySource_validateAndExecute node handle opts)
          = fst (fst (pactUrls_forEach node handle opts files ([], [])))"
    using Some
    by (simp add: AddDirectorySource_validateAndExecute_def split: prod.splits option.splits)
  with m have "UrlSource h f a b c
      \<in> set (fst (fst (pactUrls_forEach node handle opts files ([], []))))"
    by simp
  from pactUrls_forEach_UrlSource [OF this] show ?thesis by simp
qed

subsection \<open>Precedence\<close>

text \<open>
  C8, as the claim states it, fails for the broker base URL: with neither the option nor
  \<open>PACT_BROKER_BASE_URL\<close> set, no empty string stands in for the URL. The broker
  descriptor makes no call and returns \<open>IGNORE\<close>, although a provider name is present.
\<close>

theorem broker_url_no_empty_default_counterexample:
  "pactBrokerUrl ((no_options ''http://localhost:8080/'')\<lparr>provider := Some ''P''\<rparr>
      :: unit InternalPactVerifierOptions) = None
   \<and> process_env sample_node ''PACT_BROKER_BASE_URL'' = None
   \<and> BrokerSourceWithSelectors_validateAndExecute sample_node (0::nat)
        ((no_options ''http://localhost:8080/'')\<lparr>provider := Some ''P''\<rparr>)
      = ([], Inr \<lparr>status = IGNORE, messages = None\<rparr>)"
  by (simp add: BrokerSourceWithSelectors_validateAndExecute_def no_options_def sample_node_def
      or_undefined_def truthy_def returns_def)

text \<open>
  C8, amended. In the broker source call, the URL, the user name, the password and the
  token are each the explicit option when it is supplied, else the environment variable
  when it is set; the user name, the password and the token are the empty string when
  neither is. The broker base URL has no such default: when neither the option nor the
  variable is set the descriptor makes no call and returns \<open>IGNORE\<close>. Every URL source
  call of the directory source descriptor carries the user name, the password and the
  token resolved by the same rule. Supplied and set mean defined and not the empty string,
  as the operator \<open>||\<close> of the source tests it.
\<close>

theorem explicit_option_wins_over_env:
  "((truthy (pactBrokerUrl opts) \<or> truthy (process_env node ''PACT_BROKER_BASE_URL''))
       \<and> truthy (provider opts) \<longrightarrow>
      fst (BrokerSourceWithSelectors_validateAndExecute node handle opts) =
        [BrokerSourceWithSelectors handle
           (explicit_then_env (pactBrokerUrl opts) (process_env node ''PACT_BROKER_BASE_URL''))
           (explicit_then_env (pactBrokerUsername opts) (process_env node ''PACT_BROKER_USERNAME''))
           (explicit_then_env (pactBrokerPassword opts) (process_env node ''PACT_BROKER_PASSWORD''))
           (explicit_then_env (pactBrokerToken opts) (process_env node ''PACT_BROKER_TOKEN''))
           (or_false (enablePending opts))
           (or_str (includeWipPactsSince opts) [])
           (or_empty (providerVersionTags opts))
           (or_str (or_undefined (providerVersionBranch opts) (providerBranch opts)) [])
           (case consumerVersionSelectors opts of
              None \<Rightarrow> []
            | Some sels \<Rightarrow> objArrayToStringArray node sels)
           (or_empty (consumerVersionTags opts))])
   \<and> (\<not> truthy (pactBrokerUrl opts) \<and> \<not> truthy (process_env node ''PACT_BROKER_BASE_URL'') \<longrightarrow>
      BrokerSourceWithSelectors_validateAndExecute node handle opts = ([], returns IGNORE))
   \<and> (UrlSource h f a b c \<in> set (fst (AddDirectorySource_validateAndExecute node handle opts)) \<longrightarrow>
      a = explicit_then_env (pactBrokerUsername opts) (process_env node ''PACT_BROKER_USERNAME'')
      \<and> b = explicit_then_env (pactBrokerPassword opts) (process_env node ''PACT_BROKER_PASSWORD'')
      \<and> c = explicit_then_env (pactBrokerToken opts) (process_env node ''PACT_BROKER_TOKEN''))
   \<and> (truthy explicit \<longrightarrow> explicit_then_env explicit env = str_of explicit)
   \<and> (\<not> truthy explicit \<and> truthy env \<longrightarrow> explicit_then_env explicit env = str_of env)
   \<and> (\<not> truthy explicit \<and> \<not> truthy env \<longrightarrow> explicit_then_env explicit env = [])"
proof (intro conjI)
  show "truthy explicit \<longrightarrow> explicit_then_env explicit env = str_of explicit"
    by (simp add: explicit_then_env_def)
  show "\<not> truthy explicit \<and> truthy env \<longrightarrow> explicit_then_env explicit env = str_of env"
    by (simp add: explicit_then_env_def)
  show "\<not> truthy explicit \<and> \<not> truthy env \<longrightarrow> explicit_then_env explicit env = []"
    by (simp add: explicit_then_env_def)
qed (blast intro: broker_call_fields broker_ignored_without_url
      dest: directorySource_UrlSource_fields)+

theorem explicit_option_wins_over_env_witness:
  "truthy (pactBrokerUrl
      ((no_options ''http://localhost:8080/'')
         \<lparr>provider := Some ''P'', pactUrls := Some [''https://broker.example/pact.json''],
          pactBrokerUrl := Some ''https://broker.example'',
          pactBrokerUsername := Some ''alice''\<rparr> :: unit InternalPactVerifierOptions))
   \<and> BrokerSourceWithSelectors_validateAndExecute
        (sample_node\<lparr>process_env :=
           [''PACT_BROKER_USERNAME'' \<mapsto> ''envuser'', ''PACT_BROKER_PASSWORD'' \<mapsto> ''envpass'']\<rparr>)
        (0::nat)
        ((no_options ''http://localhost:8080/'')
           \<lparr>provider := Some ''P'', pactUrls := Some [''https://broker.example/pact.json''],
            pactBrokerUrl := Some ''https://broker.example'',
            pactBrokerUsername := Some ''alice''\<rparr>)
      = ([BrokerSourceWithSelectors 0 ''https://broker.example'' ''alice'' ''envpass'' []
            False [] [] [] [] []],
         Inr \<lparr>status = SUCCESS, messages = None\<rparr>)
   \<and> AddDirectorySource_validateAndExecute
        (sample_node\<lparr>process_env :=
           [''PACT_BROKER_USERNAME'' \<mapsto> ''envuser'', ''PACT_BROKER_PASSWORD'' \<mapsto> ''envpass'']\<rparr>)
        (0::nat)
        ((no_options ''http://localhost:8080/'')
           \<lparr>provider := Some ''P'', pactUrls := Some [''https://broker.example/pact.json''],
            pactBrokerUrl := Some ''https://broker.example'',
            pactBrokerUsername := Some ''alice''\<rparr>)
      = ([UrlSource 0 ''https://broker.example/pact.json'' ''alice'' ''envpass'' []],
         Inr \<lparr>status = SUCCESS, messages = None\<rparr>)
   \<and> explicit_then_env (Some ''alice'') (Some ''envuser'') = ''alice''
   \<and> explicit_then_env None (Some ''envpass'') = ''envpass''
   \<and> explicit_then_env None None = []"
  using explicit_option_wins_over_env
    [where opts = "(no_options ''http://localhost:8080/'')
           \<lparr>provider := Some ''P'', pactUrls := Some [''https://broker.example/pact.json''],
            pactBrokerUrl := Some ''https://broker.example'',
            pactBrokerUsername := Some ''alice''\<rparr>"
       and node = "sample_node\<lparr>process_env :=
           [''PACT_BROKER_USERNAME'' \<mapsto> ''envuser'', ''PACT_BROKER_PASSWORD'' \<mapsto> ''envpass'']\<rparr>"
       and handle = "0::nat" and h = "0::nat" and f = "''https://broker.example/pact.json''"
       and a = "''alice''" and b = "''envpass''" and c = "[]"
       and explicit = "Some ''alice''" and env = "Some ''envuser''"]
    explicit_option_wins_over_env
    [where opts = "no_options ''http://localhost:8080/'' :: unit InternalPactVerifierOptions"
       and node = sample_node and handle = "0::nat" and h = "0::nat" and f = "[]"
       and a = "[]" and b = "[]" and c = "[]"
       and explicit = None and env = "Some ''envpass''"]
    explicit_option_wins_over_env
    [where opts = "no_options ''http://localhost:8080/'' :: unit InternalPactVerifierOptions"
       and node = sample_node and handle = "0::nat" and h = "0::nat" and f = "[]"
       and a = "[]" and b = "[]" and c = "[]"
       and explicit = None and env = None]
  by (simp add: BrokerSourceWithSelectors_validateAndExecute_def
      AddDirectorySource_validateAndExecute_def pactUrl_item_def no_options_def sample_node_def
      sample_protocols_def sample_urls_def truthy_def str_of_def or_str_def or_undefined_def
      or_false_def or_empty_def returns_def explicit_then_env_def)

section \<open>Properties of the mock server factory\<close>

subsection \<open>The three ways to fail, and the forced flag\<close>

lemma create_server_one_of_pair:
  assumes "truthy (sslcert opts) \<noteq> truthy (sslkey opts)"
  shows "create_server host fs (Some opts) =
           (case check_port (port_opt opts) of
              Some e \<Rightarrow> Inl e
            | None \<Rightarrow> Inl (Error ''Custom ssl certificate and key must be specified together.''))"
  using assms by (auto simp: create_server_def Let_def split: option.splits)

lemma create_server_cert_missing:
  assumes "truthy (sslcert opts)" and "truthy (sslkey opts)"
    and "\<not> statSync_returns host fs (path_normalize host (str_of (sslcert opts)))"
  shows "create_server host fs (Some opts) =
           (case check_port (port_opt opts) of
              Some e \<Rightarrow> Inl e
            | None \<Rightarrow> Inl (Error (''Custom ssl certificate not found at path: ''
                                @ str_of (sslcert opts))))"
  using assms by (auto simp: create_server_def Let_def split: option.splits)

lemma create_server_key_missing:
  assumes "truthy (sslcert opts)" and "truthy (sslkey opts)"
    and "statSync_returns host fs (path_normalize host (str_of (sslcert opts)))"
    and "\<not> statSync_returns host fs (path_normalize host (str_of (sslkey opts)))"
  shows "create_server host fs (Some opts) =
           (case check_port (port_opt opts) of
              Some e \<Rightarrow> Inl e
            | None \<Rightarrow> Inl (Error (''Custom ssl key not found at path: ''
                                @ str_of (sslkey opts))))"
  using assms by (auto simp: create_server_def Let_def split: option.splits)

lemma create_server_forces_ssl:
  assumes "truthy (sslcert opts)" and "truthy (sslkey opts)"
    and "create_server host fs (Some opts) = Inr (srv, fs')"
  shows "ssl_opt (options_of srv) = Some True"
  using assms
  by (auto simp: create_server_def Let_def new_Server_def
      split: option.splits if_splits sum.splits)

subsection \<open>The validation of the certificate and the key\<close>

text \<open>
  C10. The factory validates before it constructs. With exactly one of \<open>sslcert\<close> and
  \<open>sslkey\<close> supplied it throws, and the exception is the \<open>Error\<close> that asks for both
  unless the port was already refused. With a supplied \<open>sslcert\<close> or \<open>sslkey\<close> whose
  path \<open>fs.statSync\<close> cannot find it throws, with the \<open>Error\<close> that names the missing
  path when both are supplied and the port is accepted. Whenever both are supplied and the
  factory returns a server, the \<open>ssl\<close> option of that server is \<open>true\<close>, whatever the
  caller passed. Supplied means defined and not the empty string, as the source tests it.
\<close>

theorem create_server_validates_ssl_pair:
  "(truthy (sslcert opts) \<noteq> truthy (sslkey opts) \<longrightarrow>
      (\<exists>e. create_server host fs (Some opts) = Inl e)
      \<and> (check_port (port_opt opts) = None \<longrightarrow>
           create_server host fs (Some opts)
             = Inl (Error ''Custom ssl certificate and key must be specified together.'')))
   \<and> (truthy (sslcert opts)
        \<and> \<not> statSync_returns host fs (path_normalize host (str_of (sslcert opts))) \<longrightarrow>
      (\<exists>e. create_server host fs (Some opts) = Inl e))
   \<and> (truthy (sslkey opts)
        \<and> \<not> statSync_returns host fs (path_normalize host (str_of (sslkey opts))) \<longrightarrow>
      (\<exists>e. create_server host fs (Some opts) = Inl e))
   \<and> (truthy (sslcert opts) \<and> truthy (sslkey opts) \<and> check_port (port_opt opts) = None
        \<and> \<not> statSync_returns host fs (path_normalize host (str_of (sslcert opts))) \<longrightarrow>
      create_server host fs (Some opts)
        = Inl (Error (''Custom ssl certificate not found at path: '' @ str_of (sslcert opts))))
   \<and> (truthy (sslcert opts) \<and> truthy (sslkey opts) \<and> check_port (port_opt opts) = None
        \<and> statSync_returns host fs (path_normalize host (str_of (sslcert opts)))
        \<and> \<not> statSync_returns host fs (path_normalize host (str_of (sslkey opts))) \<longrightarrow>
      create_server host fs (Some opts)
        = Inl (Error (''Custom ssl key not found at path: '' @ str_of (sslkey opts))))
   \<and> (truthy (sslcert opts) \<and> truthy (sslkey opts)
        \<and> create_server host fs (Some opts) = Inr (srv, fs') \<longrightarrow>
      ssl_opt (options_of srv) = Some True)"
proof -
  have pair: "create_server host fs (Some opts) =
           (case check_port (port_opt opts) of
              Some e \<Rightarrow> Inl e
            | None \<Rightarrow> Inl (Error ''Custom ssl certificate and key must be specified together.''))"
    if "truthy (sslcert opts) \<noteq> truthy (sslkey opts)"
    using that by (rule create_server_one_of_pair)
  have cert: "create_server host fs (Some opts) =
           (case check_port (port_opt opts) of
              Some e \<Rightarrow> Inl e
            | None \<Rightarrow> Inl (Error (''Custom ssl certificate not found at path: ''
                                @ str_of (sslcert opts))))"
    if "truthy (sslcert opts)" "truthy (sslkey opts)"
       "\<not> statSync_returns host fs (path_normalize host (str_of (sslcert opts)))"
    using that by (rule create_server_cert_missing)
  have key: "create_server host fs (Some opts) =
           (case check_port (port_opt opts) of
              Some e \<Rightarrow> Inl e
            | None \<Rightarrow> Inl (Error (''Custom ssl key not found at path: ''
                                @ str_of (sslkey opts))))"
    if "truthy (sslcert opts)" "truthy (sslkey opts)"
       "statSync_returns host fs (path_normalize host (str_of (sslcert opts)))"
       "\<not> statSync_returns host fs (path_normalize host (str_of (sslkey opts)))"
    using that by (rule create_server_key_missing)
  have c1: "truthy (sslcert opts) \<noteq> truthy (sslkey opts) \<longrightarrow>
      (\<exists>e. create_server host fs (Some opts) = Inl e)
      \<and> (check_port (port_opt opts) = None \<longrightarrow>
           create_server host fs (Some opts)
             = Inl (Error ''Custom ssl certificate and key must be specified together.''))"
    using pair by (auto split: option.splits)
  have c2: "truthy (sslcert opts)
        \<and> \<not> statSync_returns host fs (path_normalize host (str_of (sslcert opts))) \<longrightarrow>
      (\<exists>e. create_server host fs (Some opts) = Inl e)"
  proof (cases "truthy (sslkey opts)")
    case True
    then show ?thesis using cert by (auto split: option.splits)
  next
    case False
    then show ?thesis using pair by (auto split: option.splits)
  qed
  have c3: "truthy (sslkey opts)
        \<and> \<not> statSync_returns host fs (path_normalize host (str_of (sslkey opts))) \<longrightarrow>
      (\<exists>e. create_server host fs (Some opts) = Inl e)"
  proof (cases "truthy (sslcert opts)")
    case False
    then show ?thesis using pair by (auto split: option.splits)
  next
    case True
    show ?thesis
    proof (cases "statSync_returns host fs (path_normalize host (str_of (sslcert opts)))")
      case True
      with \<open>truthy (sslcert opts)\<close> show ?thesis using key by (auto split: option.splits)
    next
      case False
      with \<open>truthy (sslcert opts)\<close> show ?thesis using cert by (auto split: option.splits)
    qed
  qed
  have c4: "truthy (sslcert opts) \<and> truthy (sslkey opts) \<and> check_port (port_opt opts) = None
        \<and> \<not> statSync_returns host fs (path_normalize host (str_of (sslcert opts))) \<longrightarrow>
      create_server host fs (Some opts)
        = Inl (Error (''Custom ssl certificate not found at path: '' @ str_of (sslcert opts)))"
    using cert by auto
  have c5: "truthy (sslcert opts) \<and> truthy (sslkey opts) \<and> check_port (port_opt opts) = None
        \<and> statSync_returns host fs (path_normalize host (str_of (sslcert opts)))
        \<and> \<not> statSync_returns host fs (path_normalize host (str_of (sslkey opts))) \<longrightarrow>
      create_server host fs (Some opts)
        = Inl (Error (''Custom ssl key not found at path: '' @ str_of (sslkey opts)))"
    using key by auto
  have c6: "truthy (sslcert opts) \<and> truthy (sslkey opts)
        \<and> create_server host fs (Some opts) = Inr (srv, fs') \<longrightarrow>
      ssl_opt (options_of srv) = Some True"
    using create_server_forces_ssl [of opts host fs srv fs'] by simp
  from c1 c2 c3 c4 c5 c6 show ?thesis by (intro conjI)
qed

theorem create_server_validates_ssl_pair_witness:
  "create_server list_host [''/c.pem'', ''/k.pem'']
     (Some (empty_options\<lparr>sslcert := Some ''/c.pem''\<rparr>))
   = Inl (Error ''Custom ssl certificate and key must be specified together.'')
   \<and> create_server list_host [''/k.pem'']
       (Some (empty_options\<lparr>sslcert := Some ''/c.pem'', sslkey := Some ''/k.pem''\<rparr>))
     = Inl (Error ''Custom ssl certificate not found at path: /c.pem'')
   \<and> create_server list_host [''/c.pem'']
       (Some (empty_options\<lparr>sslcert := Some ''/c.pem'', sslkey := Some ''/k.pem''\<rparr>))
     = Inl (Error ''Custom ssl key not found at path: /k.pem'')
   \<and> create_server list_host [''/c.pem'', ''/k.pem'']
       (Some (empty_options
          \<lparr>ssl_opt := Some False, sslcert := Some ''/c.pem'', sslkey := Some ''/k.pem''\<rparr>))
     = Inr (new_Server None (Some ''localhost'') (Some ''/work'') (Some True) (Some ''/c.pem'')
              (Some ''/k.pem'') (Some False) None None None None,
            [''/work'', ''/c.pem'', ''/k.pem''])
   \<and> ssl_opt (options_of
        (new_Server None (Some ''localhost'') (Some ''/work'') (Some True) (Some ''/c.pem'')
              (Some ''/k.pem'') (Some False) None None None None)) = Some True"
  using create_server_validates_ssl_pair
    [where opts = "empty_options\<lparr>sslcert := Some ''/c.pem''\<rparr>" and host = list_host
       and fs = "[''/c.pem'', ''/k.pem'']"]
    create_server_validates_ssl_pair
    [where opts = "empty_options\<lparr>sslcert := Some ''/c.pem'', sslkey := Some ''/k.pem''\<rparr>"
       and host = list_host and fs = "[''/k.pem'']"]
    create_server_validates_ssl_pair
    [where opts = "empty_options\<lparr>sslcert := Some ''/c.pem'', sslkey := Some ''/k.pem''\<rparr>"
       and host = list_host and fs = "[''/c.pem'']"]
    create_server_validates_ssl_pair
    [where opts = "empty_options
          \<lparr>ssl_opt := Some False, sslcert := Some ''/c.pem'', sslkey := Some ''/k.pem''\<rparr>"
       and host = list_host and fs = "[''/c.pem'', ''/k.pem'']"
       and srv = "new_Server None (Some ''localhost'') (Some ''/work'') (Some True) (Some ''/c.pem'')
              (Some ''/k.pem'') (Some False) None None None None"
       and fs' = "[''/work'', ''/c.pem'', ''/k.pem'']"]
  by (simp add: create_server_def empty_options_def list_host_def truthy_def str_of_def
      or_false_def or_str_def check_port_def check_spec_def ensure_dir_def new_Server_def)

section \<open>Properties of the mock server process\<close>

subsection \<open>The server-up wait when every check fails\<close>

lemma up_check_Fails:
  "up_check (\<lambda>_. Fails) s =
     (let a = Suc (amount s) in
      \<lparr>amount = a,
       deferred = (if RETRY_AMOUNT \<le> a then settle (deferred s) (Rejected startup_failed_message)
                   else deferred s),
       effects = effects s @ [HttpGet]
                 @ (if RETRY_AMOUNT \<le> a then [DeferredReject startup_failed_message] else [])
                 @ [SetTimeout CHECKTIME],
       timer_set = True\<rparr>)"
  by (simp add: up_check_def up_retry_def Let_def)

lemma run_timers_up_Fails:
  "timer_set s \<Longrightarrow>
   deferred s = (if RETRY_AMOUNT \<le> amount s then Rejected startup_failed_message else Pending) \<Longrightarrow>
     timer_set (run_timers (up_check (\<lambda>_. Fails)) n s)
     \<and> amount (run_timers (up_check (\<lambda>_. Fails)) n s) = amount s + n
     \<and> count_list (effects (run_timers (up_check (\<lambda>_. Fails)) n s)) HttpGet
         = count_list (effects s) HttpGet + n
     \<and> deferred (run_timers (up_check (\<lambda>_. Fails)) n s)
         = (if RETRY_AMOUNT \<le> amount s + n then Rejected startup_failed_message else Pending)"
proof (induction n arbitrary: s)
  case 0
  then show ?case by simp
next
  case (Suc n)
  let ?s = "up_check (\<lambda>_. Fails) s"
  have t: "timer_set ?s" by (simp add: up_check_Fails Let_def)
  have a: "amount ?s = Suc (amount s)" by (simp add: up_check_Fails Let_def)
  have c: "count_list (effects ?s) HttpGet = Suc (count_list (effects s) HttpGet)"
    by (simp add: up_check_Fails Let_def)
  have d: "deferred ?s
      = (if RETRY_AMOUNT \<le> amount ?s then Rejected startup_failed_message else Pending)"
    using Suc.prems(2) by (simp add: up_check_Fails Let_def settle_def)
  from Suc.IH [OF t d] Suc.prems(1) a c show ?case by simp
qed

text \<open>
  C9. Take a server whose port is known and whose health check fails at every attempt.
  The server-up wait sends one request for each attempt and sets the next timer with the
  delay 500; at the 60th attempt it rejects its promise. But the rejection is not followed
  by a \<open>return\<close>, as it is in the server-down wait: the timer is set again, and after
  any number \<open>n\<close> of further timer firings a timer is still set and \<open>n + 1\<close> requests
  have been sent. The polling of the server-up wait has no bound.
\<close>

theorem waitForServerUp_keeps_polling:
  "timer_set (waitForServerUp (\<lambda>_. Fails) n)
   \<and> count_list (effects (waitForServerUp (\<lambda>_. Fails) n)) HttpGet = Suc n
   \<and> amount (waitForServerUp (\<lambda>_. Fails) n) = Suc n
   \<and> deferred (waitForServerUp (\<lambda>_. Fails) n)
       = (if RETRY_AMOUNT \<le> Suc n then Rejected startup_failed_message else Pending)"
proof -
  let ?s = "up_check (\<lambda>_. Fails) wait_start"
  have t: "timer_set ?s" by (simp add: up_check_Fails Let_def)
  have a: "amount ?s = 1" by (simp add: up_check_Fails Let_def wait_start_def)
  have c: "count_list (effects ?s) HttpGet = 1"
    by (simp add: up_check_Fails Let_def wait_start_def)
  have d: "deferred ?s
      = (if RETRY_AMOUNT \<le> amount ?s then Rejected startup_failed_message else Pending)"
    by (simp add: up_check_Fails Let_def wait_start_def RETRY_AMOUNT_def)
  from run_timers_up_Fails [OF t d, of n] a c show ?thesis
    by (simp add: waitForServerUp_def)
qed

subsection \<open>What holds of the two waits, of \<open>start\<close> and of \<open>stop\<close>\<close>

lemma run_timers_invariant:
  assumes "\<And>s. P s \<Longrightarrow> P (check s)" and "P s"
  shows "P (run_timers check n s)"
  using assms(2) by (induction n arbitrary: s) (simp_all add: assms(1))

lemma up_check_delays:
  "(\<forall>d. SetTimeout d \<in> set (effects s) \<longrightarrow> d = CHECKTIME) \<Longrightarrow>
     (\<forall>d. SetTimeout d \<in> set (effects (up_check world s)) \<longrightarrow> d = CHECKTIME)"
  by (auto simp: up_check_def up_retry_def Let_def split: health.splits if_splits)

lemma down_check_delays:
  "(\<forall>d. SetTimeout d \<in> set (effects s) \<longrightarrow> d = CHECKTIME) \<Longrightarrow>
     (\<forall>d. SetTimeout d \<in> set (effects (down_check world s)) \<longrightarrow> d = CHECKTIME)"
  by (auto simp: down_check_def Let_def split: health.splits if_splits)

text \<open>Every timer of the two waits is set with the delay \<open>CHECKTIME\<close>, 500.\<close>

lemma wait_delays_are_CHECKTIME:
  "SetTimeout d \<in> set (effects (waitForServerUp world n)) \<Longrightarrow> d = 500"
  "SetTimeout d \<in> set (effects (waitForServerDown world n)) \<Longrightarrow> d = 500"
proof -
  let ?P = "\<lambda>s. \<forall>d. SetTimeout d \<in> set (effects s) \<longrightarrow> d = CHECKTIME"
  have 0: "?P wait_start" by (simp add: wait_start_def)
  have "?P (waitForServerUp world n)"
    unfolding waitForServerUp_def
    by (rule run_timers_invariant [where P = ?P]) (use 0 up_check_delays in blast)+
  then show "SetTimeout d \<in> set (effects (waitForServerUp world n)) \<Longrightarrow> d = 500"
    by (simp add: CHECKTIME_def)
  have "?P (waitForServerDown world n)"
    unfolding waitForServerDown_def
    by (rule run_timers_invariant [where P = ?P]) (use 0 down_check_delays in blast)+
  then show "SetTimeout d \<in> set (effects (waitForServerDown world n)) \<Longrightarrow> d = 500"
    by (simp add: CHECKTIME_def)
qed

text \<open>
  The server-down wait is bounded: whatever the checks find, it has stopped and settled
  its promise after at most 60 of them.
\<close>

lemma down_check_inv:
  "timer_set s \<Longrightarrow> down_inv s \<Longrightarrow> down_inv (down_check world s)"
  by (auto simp: down_inv_def down_check_def Let_def settle_def RETRY_AMOUNT_def
      split: health.splits)

lemma down_check_amount: "amount (down_check world s) = Suc (amount s)"
  by (simp add: down_check_def Let_def split: health.splits)

lemma run_timers_down:
  "down_inv s \<Longrightarrow>
     down_inv (run_timers (down_check world) n s)
     \<and> (timer_set (run_timers (down_check world) n s) \<longrightarrow>
          amount (run_timers (down_check world) n s) = amount s + n)"
proof (induction n arbitrary: s)
  case 0
  then show ?case by simp
next
  case (Suc n)
  show ?case
  proof (cases "timer_set s")
    case True
    from down_check_inv [OF True Suc.prems] Suc.IH [of "down_check world s"] True
    show ?thesis by (simp add: down_check_amount)
  next
    case False
    with Suc.prems show ?thesis by simp
  qed
qed

lemma waitForServerDown_bounded:
  "\<not> timer_set (waitForServerDown world 59)
   \<and> deferred (waitForServerDown world 59) \<noteq> Pending
   \<and> amount (waitForServerDown world 59) \<le> 60"
proof -
  let ?s = "down_check world wait_start"
  have i: "down_inv ?s"
    by (auto simp: down_inv_def down_check_def wait_start_def Let_def settle_def
        RETRY_AMOUNT_def split: health.splits)
  have a: "amount ?s = 1" by (simp add: down_check_amount wait_start_def)
  from run_timers_down [OF i, of world 59] a
  have r: "down_inv (waitForServerDown world 59)"
    and t: "timer_set (waitForServerDown world 59) \<longrightarrow> amount (waitForServerDown world 59) = 60"
    by (simp_all add: waitForServerDown_def)
  from r t show ?thesis
    by (auto simp: down_inv_def RETRY_AMOUNT_def split: if_splits)
qed

text \<open>
  \<open>start\<close> and \<open>stop\<close> put their wait under the timeout of 30000, and \<open>stop\<close> signals
  the process group of the child where the child was spawned detached, that is, where the
  platform is not \<open>win32\<close>.
\<close>

lemma start_effects:
  "start os srv = (srv', es, Some w) \<Longrightarrow>
     es = [Spawn (if isWindows os then ''cmd.exe'' else ''/bin/sh'')
             (if isWindows os
              then [''/s'', ''/c'',
                    join_blank (pactPath_file os # createArguments os (options_of srv))]
              else [''-c'', ''./''
                    @ join_blank (pactPath_file os # createArguments os (options_of srv))])
             (\<not> isWindows os)]
     \<and> waits_for w = ServerUp \<and> timeout_ms w = 30000"
  by (auto simp: start_def Let_def PROCESS_TIMEOUT_def split: if_splits)

lemma stop_effects:
  "stop os srv = (es, Inr (srv', w)) \<Longrightarrow>
     waits_for w = ServerDown \<and> timeout_ms w = 30000
     \<and> es = (case server_instance srv of
               None \<Rightarrow> []
             | Some i \<Rightarrow>
                 [RemoveAllListeners,
                  if isWindows os
                  then ExecSync (''taskkill /f /t /pid '' @ decimal (pid i))
                  else ProcessKill (- int (pid i)) ''SIGINT''])"
  by (auto simp: stop_def Let_def PROCESS_TIMEOUT_def split: option.splits if_splits)

lemma stop_on_sample_platform:
  "fst (stop sample_platform
      \<lparr>options_of = empty_options, running = True,
       server_instance = Some \<lparr>pid = 4242, is_connected = False\<rparr>\<rparr>)
   = [RemoveAllListeners, ProcessKill (- 4242) ''SIGINT'']"
  by (simp add: stop_def sample_platform_def)

end
